theory Spec2Isabelle
  imports Main
begin

section \<open>Credential and session lifecycle of the StarkHive API (AuthService)\<close>

text \<open>
  The theory embeds the methods of \<^verbatim>\<open>AuthService\<close> (auth.service.ts) that make up the
  credential core: \<^verbatim>\<open>promoteToAdmin\<close>, \<^verbatim>\<open>register\<close>, \<^verbatim>\<open>validateUser\<close>,
  \<^verbatim>\<open>refreshTokens\<close>, \<^verbatim>\<open>getTokens\<close>, \<^verbatim>\<open>updateRefreshToken\<close>, \<^verbatim>\<open>login\<close>,
  \<^verbatim>\<open>sendPasswordResetEmail\<close> and \<^verbatim>\<open>resetPassword\<close>.

  Every method is \<^verbatim>\<open>async\<close> and works on two TypeORM repositories and a mail service.
  The model runs one method at a time: a method takes the store and returns its result
  together with the store it leaves behind. A rejected promise is the left summand of
  the result.
\<close>

subsection \<open>Libraries the service calls\<close>

text \<open>
  \<^verbatim>\<open>bcryptjs\<close> and \<^verbatim>\<open>@nestjs/jwt\<close> are libraries, not code of the repository. The
  model keeps of them what the service depends on. Of bcrypt: the digest is a function of
  the salt and of the first 72 bytes of the input, and of nothing else of the input. Of
  the JWT library: the bytes of a token, a signature that only the holder of the secret
  makes, and the expiry.
\<close>

subsubsection \<open>bcrypt\<close>

text \<open>
  A digest carries its salt and what the hash function has read of the input. Digests
  are otherwise free: two digests are equal only if both parts are.
\<close>

datatype digest = Digest (digest_salt: string) (digest_key: string)

text \<open>The bytes of the input that enter the digest: the first 72.\<close>

definition bcrypt_key :: "string \<Rightarrow> string" where
  "bcrypt_key data = take 72 data"

text \<open>\<^verbatim>\<open>bcrypt.hash(data, 10)\<close>: the salt is drawn at random, here an argument.\<close>

definition bcrypt_hash :: "string \<Rightarrow> string \<Rightarrow> digest" where
  "bcrypt_hash data salt = Digest salt (bcrypt_key data)"

text \<open>\<^verbatim>\<open>bcrypt.compare(data, encrypted)\<close>: the input is hashed with the salt of the digest.\<close>

definition bcrypt_compare :: "string \<Rightarrow> digest \<Rightarrow> bool" where
  "bcrypt_compare data d = (bcrypt_hash data (digest_salt d) = d)"

subsubsection \<open>Base64url and JSON\<close>

text \<open>Base64url without padding, on a list of bytes.\<close>

definition base64url_alphabet :: string where
  "base64url_alphabet = ''ABCDEFGHIJKLMNOPQRSTUVWXYZabcdefghijklmnopqrstuvwxyz0123456789-_''"

definition sextet :: "nat \<Rightarrow> char" where
  "sextet n = base64url_alphabet ! n"

fun base64url :: "nat list \<Rightarrow> string" where
  "base64url (a # b # c # rest) =
     sextet (a div 4) # sextet ((a mod 4) * 16 + b div 16) #
     sextet ((b mod 16) * 4 + c div 64) # sextet (c mod 64) # base64url rest"
| "base64url [a, b] =
     [sextet (a div 4), sextet ((a mod 4) * 16 + b div 16), sextet ((b mod 16) * 4)]"
| "base64url [a] = [sextet (a div 4), sextet ((a mod 4) * 16)]"
| "base64url [] = []"

definition bytes :: "string \<Rightarrow> nat list" where
  "bytes s = map of_char s"

text \<open>
  \<^verbatim>\<open>JSON.stringify\<close> of a string and of a number that is a natural number.
\<close>

definition hex_digit :: "nat \<Rightarrow> char" where
  "hex_digit n = ''0123456789abcdef'' ! n"

definition json_escape :: "char \<Rightarrow> string" where
  "json_escape c =
     (if c = CHR 0x22 then [CHR 0x5C, CHR 0x22]
      else if c = CHR 0x5C then [CHR 0x5C, CHR 0x5C]
      else if c = CHR 0x08 then [CHR 0x5C, CHR ''b'']
      else if c = CHR 0x09 then [CHR 0x5C, CHR ''t'']
      else if c = CHR 0x0A then [CHR 0x5C, CHR ''n'']
      else if c = CHR 0x0C then [CHR 0x5C, CHR ''f'']
      else if c = CHR 0x0D then [CHR 0x5C, CHR ''r'']
      else if (of_char c :: nat) < 32
      then [CHR 0x5C, CHR ''u'', CHR ''0'', CHR ''0'',
            hex_digit (of_char c div 16), hex_digit (of_char c mod 16)]
      else [c])"

definition json_string :: "string \<Rightarrow> string" where
  "json_string s = CHR 0x22 # concat (map json_escape s) @ [CHR 0x22]"

fun decimal :: "nat \<Rightarrow> string" where
  "decimal n =
     (if n < 10 then [''0123456789'' ! n]
      else decimal (n div 10) @ [''0123456789'' ! (n mod 10)])"

declare decimal.simps [simp del]

subsubsection \<open>JSON web tokens\<close>

text \<open>
  The payload of a token: the claims \<^verbatim>\<open>sub\<close> and \<^verbatim>\<open>email\<close> the service signs, and
  the claims \<^verbatim>\<open>iat\<close> and \<^verbatim>\<open>exp\<close> (seconds) that \<^verbatim>\<open>signAsync\<close> adds for
  \<^verbatim>\<open>expiresIn\<close>, in this order.
\<close>

record JwtPayload =
  sub :: string
  payload_email :: string
  iat :: nat
  exp :: nat

text \<open>
  A token is a string for the service. A string that is a JSON web token carries the
  secret it was signed with and its payload. Any other string is \<open>Opaque\<close>.
\<close>

datatype token =
    Jwt (signed_with: string) (payload: JwtPayload)
  | Opaque string

text \<open>
  The bytes of a token: the header and the payload in base64url with a dot between them
  (the signing input), a dot, and the signature. The function that computes the
  signature from the secret and the signing input is a parameter. The header is that
  of a token signed with HS256; header and payload are JSON text.
\<close>

definition header_json :: string where
  "header_json =
     ''{'' @ json_string ''alg'' @ '':'' @ json_string ''HS256'' @ '','' @
     json_string ''typ'' @ '':'' @ json_string ''JWT'' @ ''}''"

definition payload_json :: "JwtPayload \<Rightarrow> string" where
  "payload_json p =
     ''{'' @ json_string ''sub'' @ '':'' @ json_string (sub p) @ '','' @
     json_string ''email'' @ '':'' @ json_string (payload_email p) @ '','' @
     json_string ''iat'' @ '':'' @ decimal (iat p) @ '','' @
     json_string ''exp'' @ '':'' @ decimal (exp p) @ ''}''"

definition signing_input :: "JwtPayload \<Rightarrow> string" where
  "signing_input p =
     base64url (bytes header_json) @ ''.'' @ base64url (bytes (payload_json p))"

fun token_string :: "(string \<Rightarrow> string \<Rightarrow> string) \<Rightarrow> token \<Rightarrow> string" where
  "token_string mac (Jwt k p) = signing_input p @ ''.'' @ mac k (signing_input p)"
| "token_string mac (Opaque s) = s"

text \<open>The part of the payload that comes before the value of iat.\<close>

definition payload_json_start :: "string \<Rightarrow> string \<Rightarrow> string" where
  "payload_json_start i m =
     ''{'' @ json_string ''sub'' @ '':'' @ json_string i @ '','' @
     json_string ''email'' @ '':'' @ json_string m @ '','' @
     json_string ''iat'' @ '':''"

text \<open>
  \<^verbatim>\<open>jwtService.signAsync({sub, email}, {secret, expiresIn})\<close>; the clock is read in
  milliseconds, the claims are in seconds. A token is a function of the secret and the
  claims: nothing random enters it.
\<close>

definition signAsync :: "string \<Rightarrow> string \<Rightarrow> string \<Rightarrow> nat \<Rightarrow> nat \<Rightarrow> token" where
  "signAsync secret userId mail lifetime now_ms =
     Jwt secret \<lparr>sub = userId, payload_email = mail, iat = now_ms div 1000,
                 exp = now_ms div 1000 + lifetime\<rparr>"

text \<open>
  \<^verbatim>\<open>jwtService.verifyAsync(token, {secret})\<close>: the payload, or \<open>None\<close> where the
  library throws (malformed token, signature of another secret, \<^verbatim>\<open>exp\<close> reached).
\<close>

definition verifyAsync :: "token \<Rightarrow> string \<Rightarrow> nat \<Rightarrow> JwtPayload option" where
  "verifyAsync t secret now_ms =
     (case t of
        Opaque _ \<Rightarrow> None
      | Jwt k p \<Rightarrow> if k = secret \<and> now_ms div 1000 < exp p then Some p else None)"

subsection \<open>Entities\<close>

text \<open>
  Modelled from the spec: the enum \<^verbatim>\<open>UserRole\<close> (enums/userRole.enum.ts is not among
  the sources); the spec gives the roles \<^verbatim>\<open>USER\<close>, \<^verbatim>\<open>ADMIN\<close>, \<^verbatim>\<open>SUPER_ADMIN\<close>.
\<close>

datatype UserRole = USER | ADMIN | SUPER_ADMIN

text \<open>
  The entity \<^verbatim>\<open>User\<close>, with the columns the service reads and writes. The password
  column holds a digest; the refresh-token column holds a digest or nothing.
\<close>

record User =
  uid :: string
  email :: string
  password :: digest
  role :: UserRole
  refreshToken :: "digest option"

text \<open>\<^verbatim>\<open>Omit<User, 'password'>\<close>: a user without the password column.\<close>

record SafeUser =
  safe_uid :: string
  safe_email :: string
  safe_role :: UserRole
  safe_refreshToken :: "digest option"

definition omit_password :: "User \<Rightarrow> SafeUser" where
  "omit_password u =
     \<lparr>safe_uid = uid u, safe_email = email u, safe_role = role u,
      safe_refreshToken = refreshToken u\<rparr>"

text \<open>
  The entity \<^verbatim>\<open>PasswordReset\<close>. The relation \<^verbatim>\<open>user\<close> is a foreign key; loading it
  (\<^verbatim>\<open>relations: ['user']\<close>) reads the user's row as it is then.
\<close>

record PasswordReset =
  rid :: string
  reset_user :: string
  token :: string
  expiresAt :: nat

record RegisterDto =
  reg_email :: string
  reg_password :: string
  reg_role :: UserRole

record LogInDto =
  login_email :: string
  login_password :: string

record TokenPair =
  accessToken :: token
  pair_refreshToken :: token

record Mail =
  mail_to :: string
  mail_subject :: string
  mail_body :: string

text \<open>The two tables and the mails handed to the mail service.\<close>

record store =
  users :: "User list"
  resets :: "PasswordReset list"
  outbox :: "Mail list"

text \<open>
  What the service is built with: the two signing secrets of \<^verbatim>\<open>ConfigService\<close>, and
  the function of the JWT library that computes a signature.
\<close>

record config =
  JWT_SECRET :: string
  JWT_REFRESH_SECRET :: string
  HS256 :: "string \<Rightarrow> string \<Rightarrow> string"

text \<open>
  What one call of a method takes from outside the store: the clock (\<^verbatim>\<open>new Date()\<close>,
  milliseconds), the salt \<^verbatim>\<open>bcrypt.hash\<close> draws, the primary key the database
  generates for an inserted row, the bytes of \<^verbatim>\<open>crypto.randomBytes(32)\<close> in hex,
  whether \<^verbatim>\<open>mailService.sendEmail\<close> resolves, and whether
  \<^verbatim>\<open>userRepository.update\<close> resolves.
\<close>

record env =
  now :: nat
  salt :: string
  new_id :: string
  rand_token :: string
  mail_ok :: bool
  update_ok :: bool

subsection \<open>Errors\<close>

text \<open>
  The exceptions the service throws, with their messages, and the failures of the
  collaborators: \<open>JsonWebTokenError\<close> from \<^verbatim>\<open>verifyAsync\<close>, \<open>QueryFailedError\<close> from a
  repository, \<open>DeliveryError\<close> from the mail service, \<open>TypeError\<close> from a property
  access on \<^verbatim>\<open>null\<close>.
\<close>

datatype error =
    Error string
  | UnauthorizedException string
  | BadRequestException string
  | JsonWebTokenError
  | QueryFailedError
  | DeliveryError
  | TypeError

text \<open>The error kinds of the specification, as the exceptions of the source.\<close>

definition EmailAlreadyExists :: error where
  "EmailAlreadyExists = Error ''Email already exists''"

definition InvalidCredentials :: error where
  "InvalidCredentials = UnauthorizedException ''Invalid email or password''"

definition InvalidRefreshToken :: error where
  "InvalidRefreshToken = Error ''Invalid refresh token''"


definition Unauthorized :: error where
  "Unauthorized = UnauthorizedException ''Only super admins can promote users to admin''"

definition TargetNotFound :: error where
  "TargetNotFound = BadRequestException ''Target user does not exist''"

subsection \<open>Repositories\<close>

text \<open>\<^verbatim>\<open>userRepository.findOne({ where: { email } })\<close>.\<close>

definition findOne_by_email :: "User list \<Rightarrow> string \<Rightarrow> User option" where
  "findOne_by_email us e = find (\<lambda>u. email u = e) us"

text \<open>\<^verbatim>\<open>userRepository.findOne({ where: { id } })\<close>.\<close>

definition findOne_by_id :: "User list \<Rightarrow> string \<Rightarrow> User option" where
  "findOne_by_id us i = find (\<lambda>u. uid u = i) us"

text \<open>
  \<^verbatim>\<open>userRepository.save(entity)\<close> for an entity that has its primary key: the row of
  that key is replaced, and the entity is inserted when no row has the key.
\<close>

definition save_user :: "User list \<Rightarrow> User \<Rightarrow> User list" where
  "save_user us u =
     (if uid u \<in> uid ` set us
      then map (\<lambda>x. if uid x = uid u then u else x) us
      else us @ [u])"

text \<open>\<^verbatim>\<open>userRepository.update(userId, { refreshToken })\<close>.\<close>

definition update_refreshToken :: "User list \<Rightarrow> string \<Rightarrow> digest \<Rightarrow> User list" where
  "update_refreshToken us i h =
     map (\<lambda>x. if uid x = i then x\<lparr>refreshToken := Some h\<rparr> else x) us"

text \<open>\<^verbatim>\<open>passwordResetRepository.findOne({ where: { token }, relations: ['user'] })\<close>.\<close>

definition findOne_reset :: "PasswordReset list \<Rightarrow> string \<Rightarrow> PasswordReset option" where
  "findOne_reset rs t = find (\<lambda>r. token r = t) rs"

text \<open>\<^verbatim>\<open>passwordResetRepository.delete({ id })\<close>.\<close>

definition delete_reset :: "PasswordReset list \<Rightarrow> string \<Rightarrow> PasswordReset list" where
  "delete_reset rs i = filter (\<lambda>r. rid r \<noteq> i) rs"

subsection \<open>The service\<close>

definition promoteToAdmin :: "store \<Rightarrow> string \<Rightarrow> string \<Rightarrow> (error + User) \<times> store" where
  "promoteToAdmin s requesterId targetUserId =
     (case findOne_by_id (users s) requesterId of
        None \<Rightarrow>
          (Inl (UnauthorizedException ''Only super admins can promote users to admin''), s)
      | Some requester \<Rightarrow>
          if role requester \<noteq> SUPER_ADMIN
          then (Inl (UnauthorizedException ''Only super admins can promote users to admin''), s)
          else
            (case findOne_by_id (users s) targetUserId of
               None \<Rightarrow> (Inl (BadRequestException ''Target user does not exist''), s)
             | Some targetUser \<Rightarrow>
                 let targetUser' = targetUser\<lparr>role := ADMIN\<rparr>
                 in (Inr targetUser', s\<lparr>users := save_user (users s) targetUser'\<rparr>)))"

text \<open>
  \<^verbatim>\<open>register\<close>: \<^verbatim>\<open>create\<close> builds the entity from the three fields of the DTO, with the
  password hashed; \<^verbatim>\<open>save\<close> inserts it under a generated key, with no refresh token.
\<close>

definition register :: "env \<Rightarrow> store \<Rightarrow> RegisterDto \<Rightarrow> (error + SafeUser) \<times> store" where
  "register inp s registerDto =
     (case findOne_by_email (users s) (reg_email registerDto) of
        Some existing \<Rightarrow> (Inl (Error ''Email already exists''), s)
      | None \<Rightarrow>
          let hashed = bcrypt_hash (reg_password registerDto) (salt inp);
              saved = \<lparr>uid = new_id inp, email = reg_email registerDto, password = hashed,
                       role = reg_role registerDto, refreshToken = None\<rparr>
          in (Inr (omit_password saved), s\<lparr>users := users s @ [saved]\<rparr>))"

definition validateUser :: "store \<Rightarrow> string \<Rightarrow> string \<Rightarrow> SafeUser option" where
  "validateUser s mail pw =
     (case findOne_by_email (users s) mail of
        None \<Rightarrow> None
      | Some user \<Rightarrow>
          if bcrypt_compare pw (password user) then Some (omit_password user) else None)"

text \<open>\<^verbatim>\<open>getTokens\<close>: 15 minutes for the access token, 7 days for the refresh token.\<close>

definition getTokens :: "config \<Rightarrow> env \<Rightarrow> string \<Rightarrow> string \<Rightarrow> TokenPair" where
  "getTokens cfg inp userId mail =
     \<lparr>accessToken = signAsync (JWT_SECRET cfg) userId mail (15 * 60) (now inp),
      pair_refreshToken =
        signAsync (JWT_REFRESH_SECRET cfg) userId mail (7 * 24 * 60 * 60) (now inp)\<rparr>"

definition updateRefreshToken ::
  "config \<Rightarrow> env \<Rightarrow> store \<Rightarrow> string \<Rightarrow> token \<Rightarrow> (error + unit) \<times> store" where
  "updateRefreshToken cfg inp s userId t =
     (let hashedRefreshToken = bcrypt_hash (token_string (HS256 cfg) t) (salt inp)
      in if update_ok inp
         then (Inr (), s\<lparr>users := update_refreshToken (users s) userId hashedRefreshToken\<rparr>)
         else (Inl QueryFailedError, s))"

text \<open>The body of the \<^verbatim>\<open>try\<close> block of \<^verbatim>\<open>refreshTokens\<close>.\<close>

definition refreshTokens_try :: "config \<Rightarrow> env \<Rightarrow> store \<Rightarrow> token \<Rightarrow> (error + TokenPair) \<times> store" where
  "refreshTokens_try cfg inp s t =
     (case verifyAsync t (JWT_REFRESH_SECRET cfg) (now inp) of
        None \<Rightarrow> (Inl JsonWebTokenError, s)
      | Some p \<Rightarrow>
          (case findOne_by_id (users s) (sub p) of
             None \<Rightarrow> (Inl (Error ''Invalid refresh token''), s)
           | Some user \<Rightarrow>
               (case refreshToken user of
                  None \<Rightarrow> (Inl (Error ''Invalid refresh token''), s)
                | Some stored \<Rightarrow>
                    if \<not> bcrypt_compare (token_string (HS256 cfg) t) stored
                    then (Inl (Error ''Refresh token is not valid''), s)
                    else
                      let tokens = getTokens cfg inp (uid user) (email user)
                      in (case updateRefreshToken cfg inp s (uid user) (pair_refreshToken tokens) of
                            (Inl e, s') \<Rightarrow> (Inl e, s')
                          | (Inr _, s') \<Rightarrow> (Inr tokens, s')))))"

text \<open>\<^verbatim>\<open>refreshTokens\<close>: the \<^verbatim>\<open>catch\<close> replaces whatever was thrown.\<close>

definition refreshTokens :: "config \<Rightarrow> env \<Rightarrow> store \<Rightarrow> token \<Rightarrow> (error + TokenPair) \<times> store" where
  "refreshTokens cfg inp s t =
     (case refreshTokens_try cfg inp s t of
        (Inl e, s') \<Rightarrow> (Inl (Error ''Invalid refresh token''), s')
      | (Inr tokens, s') \<Rightarrow> (Inr tokens, s'))"

definition login :: "config \<Rightarrow> env \<Rightarrow> store \<Rightarrow> LogInDto \<Rightarrow> (error + TokenPair) \<times> store" where
  "login cfg inp s loginDto =
     (case validateUser s (login_email loginDto) (login_password loginDto) of
        None \<Rightarrow> (Inl (UnauthorizedException ''Invalid email or password''), s)
      | Some user \<Rightarrow>
          let tokens = getTokens cfg inp (safe_uid user) (safe_email user)
          in (case updateRefreshToken cfg inp s (safe_uid user) (pair_refreshToken tokens) of
                (Inl e, s') \<Rightarrow> (Inl e, s')
              | (Inr _, s') \<Rightarrow> (Inr tokens, s')))"

text \<open>
  \<^verbatim>\<open>sendPasswordResetEmail\<close>: the request is saved, then the mail is sent and awaited,
  with no handler around it.
\<close>

definition sendPasswordResetEmail :: "env \<Rightarrow> store \<Rightarrow> string \<Rightarrow> (error + unit) \<times> store" where
  "sendPasswordResetEmail inp s mail =
     (case findOne_by_email (users s) mail of
        None \<Rightarrow> (Inr (), s)
      | Some user \<Rightarrow>
          let tok = rand_token inp;
              expires = now inp + 15 * 60 * 1000;
              reset = \<lparr>rid = new_id inp, reset_user = uid user, token = tok,
                       expiresAt = expires\<rparr>;
              s1 = s\<lparr>resets := resets s @ [reset]\<rparr>;
              resetLink = ''https://your-app.com/reset-password?token='' @ tok
          in if mail_ok inp
             then (Inr (),
                   s1\<lparr>outbox := outbox s1 @
                      [\<lparr>mail_to = email user, mail_subject = ''Password Reset Request'',
                        mail_body = ''Click the link to reset your password: '' @ resetLink\<rparr>]\<rparr>)
             else (Inl DeliveryError, s1))"

definition resetPassword :: "env \<Rightarrow> store \<Rightarrow> string \<Rightarrow> string \<Rightarrow> (error + unit) \<times> store" where
  "resetPassword inp s tok newPassword =
     (case findOne_reset (resets s) tok of
        None \<Rightarrow> (Inl (BadRequestException ''Invalid or expired reset token''), s)
      | Some reset \<Rightarrow>
          if expiresAt reset < now inp
          then (Inl (BadRequestException ''Invalid or expired reset token''), s)
          else
            (case findOne_by_id (users s) (reset_user reset) of
               None \<Rightarrow> (Inl TypeError, s)
             | Some user \<Rightarrow>
                 let hashedPassword = bcrypt_hash newPassword (salt inp);
                     user' = user\<lparr>password := hashedPassword\<rparr>
                 in (Inr (),
                     s\<lparr>users := save_user (users s) user',
                       resets := delete_reset (resets s) (rid reset)\<rparr>)))"

subsection \<open>Sequences of operations\<close>

datatype op =
    Register RegisterDto
  | Login LogInDto
  | RefreshTokens token
  | SendPasswordResetEmail string
  | ResetPassword string string
  | PromoteToAdmin string string

text \<open>The store one operation leaves behind, whatever it returns.\<close>

fun exec :: "config \<Rightarrow> env \<Rightarrow> op \<Rightarrow> store \<Rightarrow> store" where
  "exec cfg inp (Register dto) s = snd (register inp s dto)"
| "exec cfg inp (Login dto) s = snd (login cfg inp s dto)"
| "exec cfg inp (RefreshTokens t) s = snd (refreshTokens cfg inp s t)"
| "exec cfg inp (SendPasswordResetEmail mail) s = snd (sendPasswordResetEmail inp s mail)"
| "exec cfg inp (ResetPassword tok pw) s = snd (resetPassword inp s tok pw)"
| "exec cfg inp (PromoteToAdmin r t) s = snd (promoteToAdmin s r t)"

fun run :: "config \<Rightarrow> store \<Rightarrow> (env \<times> op) list \<Rightarrow> store" where
  "run cfg s [] = s"
| "run cfg s ((inp, c) # rest) = run cfg (exec cfg inp c s) rest"

text \<open>
  The targets of the promotions of a run that succeeded for a requester holding
  \<open>SUPER_ADMIN\<close> at the time of the call.
\<close>

definition promotes :: "store \<Rightarrow> op \<Rightarrow> string set" where
  "promotes s c =
     (case c of
        PromoteToAdmin r t \<Rightarrow>
          (case findOne_by_id (users s) r of
             None \<Rightarrow> {}
           | Some requester \<Rightarrow>
               if role requester = SUPER_ADMIN \<and> findOne_by_id (users s) t \<noteq> None
               then {t} else {})
      | _ \<Rightarrow> {})"

fun promoted :: "config \<Rightarrow> store \<Rightarrow> (env \<times> op) list \<Rightarrow> string set" where
  "promoted cfg s [] = {}"
| "promoted cfg s ((inp, c) # rest) = promotes s c \<union> promoted cfg (exec cfg inp c s) rest"

text \<open>The registrations of a run that ask for the role \<open>ADMIN\<close>.\<close>

fun asks_admin :: "op \<Rightarrow> bool" where
  "asks_admin (Register dto) = (reg_role dto = ADMIN)"
| "asks_admin _ = False"

text \<open>
  The order of the roles, in which the specification speaks of raising and of lowering
  a role.
\<close>

fun role_rank :: "UserRole \<Rightarrow> nat" where
  "role_rank USER = 0"
| "role_rank ADMIN = 1"
| "role_rank SUPER_ADMIN = 2"

subsection \<open>Example stores\<close>

text \<open>A super admin and an ordinary user, used to run the service on concrete inputs.\<close>

definition root :: User where
  "root = \<lparr>uid = ''u0'', email = ''root@x.com'', password = bcrypt_hash ''rootpw'' ''s0'',
           role = SUPER_ADMIN, refreshToken = None\<rparr>"

definition alice :: User where
  "alice = \<lparr>uid = ''u1'', email = ''a@x.com'', password = bcrypt_hash ''pw1'' ''s1'',
            role = USER, refreshToken = None\<rparr>"

definition store0 :: store where
  "store0 = \<lparr>users = [root, alice], resets = [], outbox = []\<rparr>"

text \<open>
  The secrets of the examples. The function in the place of the signature is arbitrary:
  no property below depends on it.
\<close>

definition cfg0 :: config where
  "cfg0 = \<lparr>JWT_SECRET = ''k-access'', JWT_REFRESH_SECRET = ''k-refresh'',
           HS256 = (\<lambda>k m. ''mac'')\<rparr>"

text \<open>A call at clock 5000 ms in which the mail service and the repository work.\<close>

definition env0 :: env where
  "env0 = \<lparr>now = 5000, salt = ''s9'', new_id = ''n2'', rand_token = ''c0ffee'',
           mail_ok = True, update_ok = True\<rparr>"

definition alice_login :: LogInDto where
  "alice_login = \<lparr>login_email = ''a@x.com'', login_password = ''pw1''\<rparr>"

text \<open>
  The pair that \<^verbatim>\<open>login\<close> issues to the ordinary user at clock 5000 ms, its refresh
  token, and the store after that login.
\<close>

definition tokR :: token where
  "tokR = Jwt ''k-refresh''
            \<lparr>sub = ''u1'', payload_email = ''a@x.com'', iat = 5, exp = 604805\<rparr>"

definition pair0 :: TokenPair where
  "pair0 = \<lparr>accessToken = Jwt ''k-access''
               \<lparr>sub = ''u1'', payload_email = ''a@x.com'', iat = 5, exp = 905\<rparr>,
             pair_refreshToken = tokR\<rparr>"

definition alice1 :: User where
  "alice1 = alice\<lparr>refreshToken := Some (bcrypt_hash (token_string (HS256 cfg0) tokR) ''s9'')\<rparr>"

definition store1 :: store where
  "store1 = \<lparr>users = [root, alice1], resets = [], outbox = []\<rparr>"

text \<open>A call 400 ms after the login, in the same second of the clock.\<close>

definition env_same_second :: env where
  "env_same_second = \<lparr>now = 5400, salt = ''s10'', new_id = ''n3'', rand_token = ''c0ffee01'',
                       mail_ok = True, update_ok = True\<rparr>"

text \<open>A call four seconds after the login, and one seven seconds after it.\<close>

definition env_later :: env where
  "env_later = \<lparr>now = 9000, salt = ''s11'', new_id = ''n4'', rand_token = ''c0ffee02'',
                 mail_ok = True, update_ok = True\<rparr>"

definition env_again :: env where
  "env_again = \<lparr>now = 12000, salt = ''s12'', new_id = ''n5'', rand_token = ''c0ffee03'',
                 mail_ok = True, update_ok = True\<rparr>"

text \<open>Calls in which the mail service, or the repository update, fails.\<close>

definition env_mail_down :: env where
  "env_mail_down = env0\<lparr>mail_ok := False\<rparr>"

definition env_db_down :: env where
  "env_db_down = env_later\<lparr>update_ok := False\<rparr>"

text \<open>
  The pairs issued to the ordinary user at clock 9000 ms and at clock 12000 ms, the store
  after a refresh at clock 9000 ms, and the store after a refresh at clock 5400 ms.
\<close>

definition tok_later :: token where
  "tok_later = Jwt ''k-refresh''
                 \<lparr>sub = ''u1'', payload_email = ''a@x.com'', iat = 9, exp = 604809\<rparr>"

definition pair_later :: TokenPair where
  "pair_later = \<lparr>accessToken = Jwt ''k-access''
                    \<lparr>sub = ''u1'', payload_email = ''a@x.com'', iat = 9, exp = 909\<rparr>,
                  pair_refreshToken = tok_later\<rparr>"

definition pair_again :: TokenPair where
  "pair_again = \<lparr>accessToken = Jwt ''k-access''
                    \<lparr>sub = ''u1'', payload_email = ''a@x.com'', iat = 12, exp = 912\<rparr>,
                  pair_refreshToken = Jwt ''k-refresh''
                    \<lparr>sub = ''u1'', payload_email = ''a@x.com'', iat = 12, exp = 604812\<rparr>\<rparr>"

definition store_again :: store where
  "store_again =
     \<lparr>users = [root, alice\<lparr>refreshToken :=
                 Some (bcrypt_hash (token_string (HS256 cfg0) (pair_refreshToken pair_again)) ''s12'')\<rparr>],
      resets = [], outbox = []\<rparr>"

definition store_later :: store where
  "store_later =
     \<lparr>users = [root, alice\<lparr>refreshToken :=
                 Some (bcrypt_hash (token_string (HS256 cfg0) tok_later) ''s11'')\<rparr>],
      resets = [], outbox = []\<rparr>"

definition store_same_second :: store where
  "store_same_second =
     \<lparr>users = [root, alice\<lparr>refreshToken :=
                 Some (bcrypt_hash (token_string (HS256 cfg0) tokR) ''s10'')\<rparr>],
      resets = [], outbox = []\<rparr>"

text \<open>
  The store after the ordinary user has asked for a password reset at clock 5000 ms, and
  the request that call has saved.
\<close>

definition reset0 :: PasswordReset where
  "reset0 = \<lparr>rid = ''n2'', reset_user = ''u1'', token = ''c0ffee'', expiresAt = 905000\<rparr>"









text \<open>The keys of the users that hold the role \<open>ADMIN\<close>.\<close>

definition admin_ids :: "store \<Rightarrow> string set" where
  "admin_ids s = set (map uid (filter (\<lambda>u. role u = ADMIN) (users s)))"

text \<open>A registration as an ordinary user, one that asks for \<open>ADMIN\<close>, and two runs.\<close>

definition bob_dto :: RegisterDto where
  "bob_dto = \<lparr>reg_email = ''b@x.com'', reg_password = ''pw2'', reg_role = USER\<rparr>"

definition mallory_dto :: RegisterDto where
  "mallory_dto = \<lparr>reg_email = ''m@x.com'', reg_password = ''pw3'', reg_role = ADMIN\<rparr>"

definition mallory :: User where
  "mallory = \<lparr>uid = ''n2'', email = ''m@x.com'', password = bcrypt_hash ''pw3'' ''s9'',
              role = ADMIN, refreshToken = None\<rparr>"

definition ops_promote :: "(env \<times> op) list" where
  "ops_promote = [(env0, Register bob_dto), (env_later, PromoteToAdmin ''u0'' ''u1'')]"

definition ops_register_admin :: "(env \<times> op) list" where
  "ops_register_admin = [(env0, Register mallory_dto)]"

section \<open>Properties\<close>

subsection \<open>The bytes of a token that enter a digest\<close>

lemma json_string_simple:
  "json_string ''alg'' = [CHR 0x22] @ ''alg'' @ [CHR 0x22]"
  "json_string ''HS256'' = [CHR 0x22] @ ''HS256'' @ [CHR 0x22]"
  "json_string ''typ'' = [CHR 0x22] @ ''typ'' @ [CHR 0x22]"
  "json_string ''JWT'' = [CHR 0x22] @ ''JWT'' @ [CHR 0x22]"
  "json_string ''sub'' = [CHR 0x22] @ ''sub'' @ [CHR 0x22]"
  "json_string ''email'' = [CHR 0x22] @ ''email'' @ [CHR 0x22]"
  "json_string ''iat'' = [CHR 0x22] @ ''iat'' @ [CHR 0x22]"
  "json_string ''exp'' = [CHR 0x22] @ ''exp'' @ [CHR 0x22]"
  by (simp_all add: json_string_def json_escape_def)

lemma header_base64url:
  "base64url (bytes header_json) = ''eyJhbGciOiJIUzI1NiIsInR5cCI6IkpXVCJ9''"
  by (simp add: header_json_def json_string_simple bytes_def sextet_def base64url_alphabet_def)

lemma length_json_string: "2 \<le> length (json_string s)"
  by (simp add: json_string_def)

lemma base64url_append:
  "length xs mod 3 = 0 \<Longrightarrow> base64url (xs @ ys) = base64url xs @ base64url ys"
  by (induction xs rule: base64url.induct) simp_all

lemma length_base64url:
  "length xs mod 3 = 0 \<Longrightarrow> length (base64url xs) = 4 * (length xs div 3)"
proof (induction xs rule: base64url.induct)
  case (1 a b c rest)
  from "1.prems" have m: "length rest mod 3 = 0" by simp
  have "(3 + length rest) div 3 = Suc (length rest div 3)" by presburger
  with "1.IH" [OF m] show ?case by simp
qed simp_all

lemma base64url_take27:
  assumes "27 \<le> length xs"
  shows "take 36 (base64url xs) = base64url (take 27 xs)"
    and "length (base64url (take 27 xs)) = 36"
proof -
  define ys where "ys = take 27 xs"
  have l: "length ys = 27" using assms by (simp add: ys_def)
  then have m: "length ys mod 3 = 0" by simp
  have "base64url xs = base64url (ys @ drop 27 xs)" by (simp add: ys_def)
  also have "\<dots> = base64url ys @ base64url (drop 27 xs)"
    using m by (rule base64url_append)
  finally have e: "base64url xs = base64url ys @ base64url (drop 27 xs)" .
  from length_base64url [OF m] l have n: "length (base64url ys) = 36" by simp
  from n show "length (base64url (take 27 xs)) = 36" by (simp add: ys_def)
  from n e show "take 36 (base64url xs) = base64url (take 27 xs)" by (simp add: ys_def)
qed

lemma payload_json_split:
  "payload_json p = payload_json_start (sub p) (payload_email p) @
     decimal (iat p) @ '','' @ json_string ''exp'' @ '':'' @ decimal (exp p) @ ''}''"
  by (simp add: payload_json_def payload_json_start_def)

lemma length_payload_json_start: "27 \<le> length (payload_json_start i m)"
  using length_json_string [of i] length_json_string [of m]
  by (simp add: payload_json_start_def json_string_simple)

lemma take27_payload_json:
  "take 27 (bytes (payload_json p)) = take 27 (bytes (payload_json_start (sub p) (payload_email p)))"
  using length_payload_json_start [of "sub p" "payload_email p"]
  by (simp add: payload_json_split bytes_def)

lemma length_payload_json: "27 \<le> length (bytes (payload_json p))"
  using length_payload_json_start [of "sub p" "payload_email p"]
  by (simp add: payload_json_split bytes_def)

lemma take72_signing_input:
  "take 72 (signing_input p) =
     ''eyJhbGciOiJIUzI1NiIsInR5cCI6IkpXVCJ9.'' @
     take 35 (base64url (take 27 (bytes (payload_json_start (sub p) (payload_email p)))))"
proof -
  have "take 35 (base64url (bytes (payload_json p))) =
        take 35 (take 36 (base64url (bytes (payload_json p))))"
    by simp
  also have "\<dots> = take 35 (base64url (take 27 (bytes (payload_json p))))"
    by (simp only: base64url_take27 (1) [OF length_payload_json])
  finally show ?thesis
    by (simp add: signing_input_def header_base64url take27_payload_json)
qed

lemma length_signing_input: "72 < length (signing_input p)"
proof -
  have "length (take 36 (base64url (bytes (payload_json p)))) = 36"
    by (simp only: base64url_take27 [OF length_payload_json])
  then have "36 \<le> length (base64url (bytes (payload_json p)))" by simp
  then show ?thesis by (simp add: signing_input_def header_base64url)
qed


text \<open>
  The first 72 bytes of a token are fixed by the claims \<^verbatim>\<open>sub\<close> and \<^verbatim>\<open>email\<close>: they
  end before the value of \<^verbatim>\<open>iat\<close> begins. So the digests of two tokens of one user,
  under one salt, are the same digest.
\<close>

lemma bcrypt_key_token:
  "bcrypt_key (token_string mac (Jwt k p)) = take 72 (signing_input p)"
  using length_signing_input [of p] by (simp add: bcrypt_key_def)

lemma bcrypt_key_same_user:
  "sub p = sub q \<Longrightarrow> payload_email p = payload_email q \<Longrightarrow>
   bcrypt_key (token_string mac (Jwt k p)) = bcrypt_key (token_string mac (Jwt k' q))"
  by (simp only: bcrypt_key_token take72_signing_input)

lemma bcrypt_compare_same_user:
  "sub p = sub q \<Longrightarrow> payload_email p = payload_email q \<Longrightarrow>
   bcrypt_compare (token_string mac (Jwt k p)) (bcrypt_hash (token_string mac (Jwt k' q)) sl)"
  using bcrypt_key_same_user [of p q mac k k']
  by (simp only: bcrypt_compare_def bcrypt_hash_def digest.sel)

lemma bcrypt_compare_hash: "bcrypt_compare data (bcrypt_hash data sl)"
  by (simp add: bcrypt_compare_def bcrypt_hash_def)

lemma tokR_head:
  "bcrypt_key (token_string (HS256 cfg0) tokR) =
     ''eyJhbGciOiJIUzI1NiIsInR5cCI6IkpXVCJ9.eyJzdWIiOiJ1MSIsImVtYWlsIjoiYUB4LmN''"
  unfolding tokR_def bcrypt_key_token take72_signing_input
  by (simp add: payload_json_start_def json_string_def json_escape_def bytes_def sextet_def
        base64url_alphabet_def)

lemma tok_later_head:
  "bcrypt_key (token_string (HS256 cfg0) tok_later) =
     ''eyJhbGciOiJIUzI1NiIsInR5cCI6IkpXVCJ9.eyJzdWIiOiJ1MSIsImVtYWlsIjoiYUB4LmN''"
  unfolding tok_later_def bcrypt_key_token take72_signing_input
  by (simp add: payload_json_start_def json_string_def json_escape_def bytes_def sextet_def
        base64url_alphabet_def)

subsection \<open>Repository lemmas\<close>

lemma findOne_by_id_SomeD:
  "findOne_by_id us i = Some u \<Longrightarrow> u \<in> set us \<and> uid u = i"
  unfolding findOne_by_id_def by (induction us) (auto split: if_splits)

lemma findOne_by_id_None_iff:
  "findOne_by_id us i = None \<longleftrightarrow> i \<notin> uid ` set us"
  unfolding findOne_by_id_def by (induction us) auto

lemma findOne_by_id_map_same:
  "findOne_by_id us (uid u) = Some v \<Longrightarrow>
   findOne_by_id (map (\<lambda>x. if uid x = uid u then u else x) us) (uid u) = Some u"
  unfolding findOne_by_id_def by (induction us) (auto split: if_splits)

lemma findOne_by_id_save_same:
  "findOne_by_id us (uid u) = Some v \<Longrightarrow> findOne_by_id (save_user us u) (uid u) = Some u"
proof -
  assume a: "findOne_by_id us (uid u) = Some v"
  then have "v \<in> set us" "uid v = uid u" by (simp_all add: findOne_by_id_SomeD)
  then have "uid u \<in> uid ` set us" by (metis image_eqI)
  with findOne_by_id_map_same [OF a] show ?thesis by (simp add: save_user_def)
qed

lemma find_map_other:
  "i \<noteq> uid u \<Longrightarrow>
   find (\<lambda>x. uid x = i) (map (\<lambda>x. if uid x = uid u then u else x) us) = find (\<lambda>x. uid x = i) us"
  by (induction us) auto

lemma find_append_other:
  "i \<noteq> uid u \<Longrightarrow> find (\<lambda>x. uid x = i) (us @ [u]) = find (\<lambda>x. uid x = i) us"
  by (induction us) auto

lemma findOne_by_id_save_other:
  "i \<noteq> uid u \<Longrightarrow> findOne_by_id (save_user us u) i = findOne_by_id us i"
  by (simp add: findOne_by_id_def save_user_def find_map_other find_append_other)

subsection \<open>Promotion\<close>

text \<open>
  C9. \<^verbatim>\<open>promoteToAdmin(requesterId, targetUserId)\<close> fails with \<open>Unauthorized\<close> when
  the requester is absent or its role is not \<open>SUPER_ADMIN\<close>, and then leaves the store
  as it was. When the requester is a \<open>SUPER_ADMIN\<close> and the target does not exist, it
  fails with \<open>TargetNotFound\<close>, an error different from \<open>Unauthorized\<close>. When the
  requester is a \<open>SUPER_ADMIN\<close> and the target exists, it returns the target with the
  role \<open>ADMIN\<close>, and the row found under the target's key afterwards is that user.
\<close>

theorem promoteToAdmin_outcomes:
  "((findOne_by_id (users s) r = None \<or>
     (\<exists>q. findOne_by_id (users s) r = Some q \<and> role q \<noteq> SUPER_ADMIN)) \<longrightarrow>
      promoteToAdmin s r t = (Inl Unauthorized, s)) \<and>
   ((\<exists>q. findOne_by_id (users s) r = Some q \<and> role q = SUPER_ADMIN) \<longrightarrow>
      (findOne_by_id (users s) t = None \<longrightarrow>
         promoteToAdmin s r t = (Inl TargetNotFound, s) \<and> TargetNotFound \<noteq> Unauthorized) \<and>
      (\<forall>u. findOne_by_id (users s) t = Some u \<longrightarrow>
         fst (promoteToAdmin s r t) = Inr (u\<lparr>role := ADMIN\<rparr>) \<and>
         findOne_by_id (users (snd (promoteToAdmin s r t))) t = Some (u\<lparr>role := ADMIN\<rparr>)))"
proof (intro conjI impI allI)
  assume "findOne_by_id (users s) r = None \<or>
     (\<exists>q. findOne_by_id (users s) r = Some q \<and> role q \<noteq> SUPER_ADMIN)"
  then show "promoteToAdmin s r t = (Inl Unauthorized, s)"
    by (auto simp: promoteToAdmin_def Unauthorized_def)
next
  assume "\<exists>q. findOne_by_id (users s) r = Some q \<and> role q = SUPER_ADMIN"
    and "findOne_by_id (users s) t = None"
  then show "promoteToAdmin s r t = (Inl TargetNotFound, s)"
    by (auto simp: promoteToAdmin_def TargetNotFound_def)
next
  show "TargetNotFound \<noteq> Unauthorized"
    by (simp add: TargetNotFound_def Unauthorized_def)
next
  fix u
  assume sa: "\<exists>q. findOne_by_id (users s) r = Some q \<and> role q = SUPER_ADMIN"
    and tg: "findOne_by_id (users s) t = Some u"
  from sa tg show "fst (promoteToAdmin s r t) = Inr (u\<lparr>role := ADMIN\<rparr>)"
    by (auto simp: promoteToAdmin_def Let_def)
  from tg have ut: "uid u = t" by (simp add: findOne_by_id_SomeD)
  have "findOne_by_id (save_user (users s) (u\<lparr>role := ADMIN\<rparr>)) (uid (u\<lparr>role := ADMIN\<rparr>))
          = Some (u\<lparr>role := ADMIN\<rparr>)"
    by (rule findOne_by_id_save_same [where v = u]) (simp add: tg ut)
  with sa tg ut show "findOne_by_id (users (snd (promoteToAdmin s r t))) t = Some (u\<lparr>role := ADMIN\<rparr>)"
    by (auto simp: promoteToAdmin_def Let_def)
qed

theorem promoteToAdmin_outcomes_witness:
  "promoteToAdmin store0 ''u1'' ''u0'' = (Inl Unauthorized, store0) \<and>
   promoteToAdmin store0 ''u9'' ''u0'' = (Inl Unauthorized, store0) \<and>
   promoteToAdmin store0 ''u0'' ''u7'' = (Inl TargetNotFound, store0) \<and>
   fst (promoteToAdmin store0 ''u0'' ''u1'') = Inr (alice\<lparr>role := ADMIN\<rparr>) \<and>
   findOne_by_id (users (snd (promoteToAdmin store0 ''u0'' ''u1''))) ''u1'' =
     Some (alice\<lparr>role := ADMIN\<rparr>)"
  using promoteToAdmin_outcomes [of store0 "''u1''" "''u0''"]
    promoteToAdmin_outcomes [of store0 "''u9''" "''u0''"]
    promoteToAdmin_outcomes [of store0 "''u0''" "''u7''"]
    promoteToAdmin_outcomes [of store0 "''u0''" "''u1''"]
  by (simp add: store0_def root_def alice_def findOne_by_id_def)

lemma promoteToAdmin_InlD:
  "fst (promoteToAdmin s r t) = Inl e \<Longrightarrow> snd (promoteToAdmin s r t) = s"
  by (auto simp: promoteToAdmin_def Let_def split: option.splits if_splits)

text \<open>
  C2, amended. For every requester and every target whose role is not \<open>SUPER_ADMIN\<close>:
  a successful \<^verbatim>\<open>promoteToAdmin\<close> leaves the target with the role \<open>ADMIN\<close>, which
  is its old role or a higher one; the user found under any other key, the requester's
  among them, is the user found there before; and no key holds a lower role than before.
  A call that fails leaves the store as it was.
\<close>

theorem promoteToAdmin_roles:
  "((\<exists>q. findOne_by_id (users s) r = Some q \<and> role q = SUPER_ADMIN) \<and>
    findOne_by_id (users s) t = Some u \<and> role u \<noteq> SUPER_ADMIN \<longrightarrow>
      fst (promoteToAdmin s r t) = Inr (u\<lparr>role := ADMIN\<rparr>) \<and>
      findOne_by_id (users (snd (promoteToAdmin s r t))) t = Some (u\<lparr>role := ADMIN\<rparr>) \<and>
      role_rank (role u) \<le> role_rank ADMIN \<and>
      (\<forall>i. i \<noteq> t \<longrightarrow>
         findOne_by_id (users (snd (promoteToAdmin s r t))) i = findOne_by_id (users s) i) \<and>
      findOne_by_id (users (snd (promoteToAdmin s r t))) r = findOne_by_id (users s) r \<and>
      (\<forall>i v'. findOne_by_id (users (snd (promoteToAdmin s r t))) i = Some v' \<longrightarrow>
         (\<exists>v. findOne_by_id (users s) i = Some v \<and> role_rank (role v) \<le> role_rank (role v')))) \<and>
   (\<forall>e. fst (promoteToAdmin s r t) = Inl e \<longrightarrow> snd (promoteToAdmin s r t) = s)"
proof (intro conjI impI allI)
  fix e
  assume "fst (promoteToAdmin s r t) = Inl e"
  then show "snd (promoteToAdmin s r t) = s" by (rule promoteToAdmin_InlD)
next
  assume a: "(\<exists>q. findOne_by_id (users s) r = Some q \<and> role q = SUPER_ADMIN) \<and>
    findOne_by_id (users s) t = Some u \<and> role u \<noteq> SUPER_ADMIN"
  let ?u = "u\<lparr>role := ADMIN\<rparr>"
  let ?s' = "snd (promoteToAdmin s r t)"
  from a obtain q where q: "findOne_by_id (users s) r = Some q" "role q = SUPER_ADMIN" by blast
  from a have u: "findOne_by_id (users s) t = Some u" and nu: "role u \<noteq> SUPER_ADMIN" by simp_all
  from u have ut: "uid u = t" by (simp add: findOne_by_id_SomeD)
  from q u have res: "promoteToAdmin s r t = (Inr ?u, s\<lparr>users := save_user (users s) ?u\<rparr>)"
    by (simp add: promoteToAdmin_def Let_def)
  from q u nu have rt: "r \<noteq> t" by auto
  show 1: "fst (promoteToAdmin s r t) = Inr ?u" by (simp add: res)
  have "findOne_by_id (save_user (users s) ?u) (uid ?u) = Some ?u"
    by (rule findOne_by_id_save_same [where v = u]) (simp add: u ut)
  then show 2: "findOne_by_id (users ?s') t = Some ?u" by (simp add: res ut)
  from nu show 3: "role_rank (role u) \<le> role_rank ADMIN" by (cases "role u") simp_all
  have other: "findOne_by_id (users ?s') i = findOne_by_id (users s) i" if "i \<noteq> t" for i
    using that by (simp add: res findOne_by_id_save_other ut)
  then show "\<And>i. i \<noteq> t \<Longrightarrow> findOne_by_id (users ?s') i = findOne_by_id (users s) i" .
  from other [OF rt] show "findOne_by_id (users ?s') r = findOne_by_id (users s) r" .
  show "\<exists>v. findOne_by_id (users s) i = Some v \<and> role_rank (role v) \<le> role_rank (role v')"
    if f: "findOne_by_id (users ?s') i = Some v'" for i v'
  proof (cases "i = t")
    case True
    with f 2 have "v' = ?u" by simp
    with True u 3 show ?thesis by simp
  next
    case False
    with other f show ?thesis by simp
  qed
qed

theorem promoteToAdmin_roles_witness:
  "findOne_by_id (users store0) ''u0'' = Some root \<and> role root = SUPER_ADMIN \<and>
   findOne_by_id (users store0) ''u1'' = Some alice \<and> role alice = USER \<and>
   fst (promoteToAdmin store0 ''u0'' ''u1'') = Inr (alice\<lparr>role := ADMIN\<rparr>) \<and>
   findOne_by_id (users (snd (promoteToAdmin store0 ''u0'' ''u1''))) ''u0'' = Some root \<and>
   snd (promoteToAdmin store0 ''u1'' ''u0'') = store0"
proof -
  have r: "findOne_by_id (users store0) ''u0'' = Some root" "role root = SUPER_ADMIN"
    and a: "findOne_by_id (users store0) ''u1'' = Some alice" "role alice = USER"
    by (simp_all add: findOne_by_id_def store0_def root_def alice_def)
  have pre: "(\<exists>q. findOne_by_id (users store0) ''u0'' = Some q \<and> role q = SUPER_ADMIN) \<and>
    findOne_by_id (users store0) ''u1'' = Some alice \<and> role alice \<noteq> SUPER_ADMIN"
    using r a by simp
  note T = promoteToAdmin_roles [THEN conjunct1, rule_format, OF pre]
  have 1: "fst (promoteToAdmin store0 ''u0'' ''u1'') = Inr (alice\<lparr>role := ADMIN\<rparr>)"
    using T by blast
  have 2: "findOne_by_id (users (snd (promoteToAdmin store0 ''u0'' ''u1''))) ''u0'' = Some root"
    using T [THEN conjunct2, THEN conjunct2, THEN conjunct2, THEN conjunct2, THEN conjunct1] r
    by simp
  have f: "fst (promoteToAdmin store0 ''u1'' ''u0'') = Inl Unauthorized"
    by (simp add: promoteToAdmin_def Unauthorized_def a)
  have 3: "snd (promoteToAdmin store0 ''u1'' ''u0'') = store0"
    by (rule promoteToAdmin_roles [THEN conjunct2, rule_format, OF f])
  from r a 1 2 3 show ?thesis by blast
qed

text \<open>
  C2 as stated fails. \<^verbatim>\<open>promoteToAdmin\<close> assigns \<open>ADMIN\<close> to the target whatever
  its role: a super admin that names itself as the target is lowered from \<open>SUPER_ADMIN\<close>
  to \<open>ADMIN\<close>. Here the super admin of the example store promotes itself.
\<close>

theorem promoteToAdmin_lowers_super_admin:
  "findOne_by_id (users store0) ''u0'' = Some root \<and> role root = SUPER_ADMIN \<and>
   promoteToAdmin store0 ''u0'' ''u0'' =
     (Inr (root\<lparr>role := ADMIN\<rparr>), store0\<lparr>users := [root\<lparr>role := ADMIN\<rparr>, alice]\<rparr>) \<and>
   findOne_by_id (users (snd (promoteToAdmin store0 ''u0'' ''u0''))) ''u0'' =
     Some (root\<lparr>role := ADMIN\<rparr>)"
  by (simp add: promoteToAdmin_def findOne_by_id_def save_user_def Let_def store0_def root_def
        alice_def)

subsection \<open>Lookups after an update\<close>

lemma find_map_preserving:
  "(\<And>x. P (f x) = P x) \<Longrightarrow> find P (map f xs) = map_option f (find P xs)"
  by (induction xs) auto

lemma findOne_by_email_update:
  "findOne_by_email (update_refreshToken us i h) e =
     map_option (\<lambda>x. if uid x = i then x\<lparr>refreshToken := Some h\<rparr> else x) (findOne_by_email us e)"
  unfolding findOne_by_email_def update_refreshToken_def
  by (rule find_map_preserving) simp

lemma findOne_by_id_update:
  "findOne_by_id (update_refreshToken us i h) j =
     map_option (\<lambda>x. if uid x = i then x\<lparr>refreshToken := Some h\<rparr> else x) (findOne_by_id us j)"
  unfolding findOne_by_id_def update_refreshToken_def
  by (rule find_map_preserving) simp

subsection \<open>Registration\<close>

text \<open>
  C8. \<^verbatim>\<open>register\<close> fails with \<open>EmailAlreadyExists\<close> whenever a user with the given
  email exists, and leaves the store unchanged. Otherwise it adds exactly one user, whose
  password column is the digest of the supplied password (the column holds a digest,
  never a string), and returns that user without the password column.
\<close>

theorem register_outcomes:
  "(findOne_by_email (users s) (reg_email dto) \<noteq> None \<longrightarrow>
      register inp s dto = (Inl EmailAlreadyExists, s)) \<and>
   (findOne_by_email (users s) (reg_email dto) = None \<longrightarrow>
      (\<exists>u. register inp s dto = (Inr (omit_password u), s\<lparr>users := users s @ [u]\<rparr>) \<and>
           email u = reg_email dto \<and>
           password u = bcrypt_hash (reg_password dto) (salt inp) \<and>
           bcrypt_compare (reg_password dto) (password u)))"
  by (auto simp: register_def EmailAlreadyExists_def Let_def bcrypt_compare_def bcrypt_hash_def)

theorem register_outcomes_witness:
  "register env0 store0 \<lparr>reg_email = ''a@x.com'', reg_password = ''pw2'', reg_role = USER\<rparr>
     = (Inl EmailAlreadyExists, store0) \<and>
   (\<exists>u. register env0 store0 \<lparr>reg_email = ''b@x.com'', reg_password = ''pw2'', reg_role = USER\<rparr>
          = (Inr (omit_password u), store0\<lparr>users := users store0 @ [u]\<rparr>) \<and>
        email u = ''b@x.com'' \<and> password u = bcrypt_hash ''pw2'' ''s9'' \<and>
        bcrypt_compare ''pw2'' (password u))"
  using register_outcomes [of store0 "\<lparr>reg_email = ''a@x.com'', reg_password = ''pw2'', reg_role = USER\<rparr>" env0]
    register_outcomes [of store0 "\<lparr>reg_email = ''b@x.com'', reg_password = ''pw2'', reg_role = USER\<rparr>" env0]
  by (simp add: store0_def root_def alice_def env0_def findOne_by_email_def)

lemma store0_alice: "findOne_by_email (users store0) ''a@x.com'' = Some alice"
  by (simp add: store0_def root_def alice_def findOne_by_email_def)

lemma store0_nobody: "findOne_by_email (users store0) ''nobody@x.com'' = None"
  by (simp add: store0_def root_def alice_def findOne_by_email_def)

subsection \<open>Login\<close>

lemma getTokens_pair:
  "getTokens cfg inp i m =
     \<lparr>accessToken = Jwt (JWT_SECRET cfg)
        \<lparr>sub = i, payload_email = m, iat = now inp div 1000, exp = now inp div 1000 + 900\<rparr>,
      pair_refreshToken = Jwt (JWT_REFRESH_SECRET cfg)
        \<lparr>sub = i, payload_email = m, iat = now inp div 1000, exp = now inp div 1000 + 604800\<rparr>\<rparr>"
  by (simp add: getTokens_def signAsync_def)

lemma login_InrD:
  assumes "fst (login cfg inp s dto) = Inr tokens"
  shows "\<exists>u. findOne_by_email (users s) (login_email dto) = Some u \<and>
           bcrypt_compare (login_password dto) (password u) \<and> update_ok inp \<and>
           tokens = getTokens cfg inp (uid u) (email u) \<and>
           snd (login cfg inp s dto) =
             s\<lparr>users := update_refreshToken (users s) (uid u)
                  (bcrypt_hash (token_string (HS256 cfg) (pair_refreshToken tokens)) (salt inp))\<rparr>"
  using assms
  by (auto simp: login_def validateUser_def updateRefreshToken_def Let_def omit_password_def
        split: option.splits if_splits)

text \<open>
  C7, amended. \<^verbatim>\<open>login\<close> fails with \<open>InvalidCredentials\<close> when, and only when, no user
  has the email or the password does not verify against the stored digest; in both cases
  the caller gets the same error and the store is unchanged. When the credentials verify
  and the repository update works, it returns a pair. The pair it returns carries the
  key and the email of the user and the clock second of the call, the access token
  signed with the access secret for 15 minutes and the refresh token with the refresh
  secret for 7 days; the user's row then holds the digest of the pair's refresh token.
  The pair is not the pair of any login in another clock second.
\<close>

theorem login_outcomes:
  "((findOne_by_email (users s) (login_email dto) = None \<or>
     (\<exists>u. findOne_by_email (users s) (login_email dto) = Some u \<and>
          \<not> bcrypt_compare (login_password dto) (password u))) \<longrightarrow>
      login cfg inp s dto = (Inl InvalidCredentials, s)) \<and>
   (fst (login cfg inp s dto) = Inl InvalidCredentials \<longrightarrow>
      (findOne_by_email (users s) (login_email dto) = None \<or>
       (\<exists>u. findOne_by_email (users s) (login_email dto) = Some u \<and>
            \<not> bcrypt_compare (login_password dto) (password u)))) \<and>
   (\<forall>u. findOne_by_email (users s) (login_email dto) = Some u \<and>
        bcrypt_compare (login_password dto) (password u) \<and> update_ok inp \<longrightarrow>
        (\<exists>tokens. fst (login cfg inp s dto) = Inr tokens)) \<and>
   (\<forall>tokens. fst (login cfg inp s dto) = Inr tokens \<longrightarrow>
      (\<exists>u. findOne_by_email (users s) (login_email dto) = Some u \<and>
           bcrypt_compare (login_password dto) (password u) \<and>
           accessToken tokens = Jwt (JWT_SECRET cfg)
             \<lparr>sub = uid u, payload_email = email u, iat = now inp div 1000,
              exp = now inp div 1000 + 900\<rparr> \<and>
           pair_refreshToken tokens = Jwt (JWT_REFRESH_SECRET cfg)
             \<lparr>sub = uid u, payload_email = email u, iat = now inp div 1000,
              exp = now inp div 1000 + 604800\<rparr> \<and>
           findOne_by_email (users (snd (login cfg inp s dto))) (login_email dto) =
             Some (u\<lparr>refreshToken :=
               Some (bcrypt_hash (token_string (HS256 cfg) (pair_refreshToken tokens))
                       (salt inp))\<rparr>))) \<and>
   (\<forall>tokens inp2 s2 dto2.
      fst (login cfg inp s dto) = Inr tokens \<and> now inp2 div 1000 \<noteq> now inp div 1000 \<longrightarrow>
      fst (login cfg inp2 s2 dto2) \<noteq> Inr tokens)"
proof (intro conjI allI impI)
  assume "findOne_by_email (users s) (login_email dto) = None \<or>
     (\<exists>u. findOne_by_email (users s) (login_email dto) = Some u \<and>
          \<not> bcrypt_compare (login_password dto) (password u))"
  then show "login cfg inp s dto = (Inl InvalidCredentials, s)"
    by (auto simp: login_def validateUser_def InvalidCredentials_def)
next
  assume "fst (login cfg inp s dto) = Inl InvalidCredentials"
  then show "findOne_by_email (users s) (login_email dto) = None \<or>
       (\<exists>u. findOne_by_email (users s) (login_email dto) = Some u \<and>
            \<not> bcrypt_compare (login_password dto) (password u))"
    by (auto simp: login_def validateUser_def updateRefreshToken_def InvalidCredentials_def
          Let_def split: option.splits if_splits)
next
  fix u
  assume "findOne_by_email (users s) (login_email dto) = Some u \<and>
        bcrypt_compare (login_password dto) (password u) \<and> update_ok inp"
  then show "\<exists>tokens. fst (login cfg inp s dto) = Inr tokens"
    by (simp add: login_def validateUser_def updateRefreshToken_def Let_def omit_password_def)
next
  fix tokens
  assume ok: "fst (login cfg inp s dto) = Inr tokens"
  from login_InrD [OF ok] obtain u where
    u: "findOne_by_email (users s) (login_email dto) = Some u"
    and c: "bcrypt_compare (login_password dto) (password u)"
    and t: "tokens = getTokens cfg inp (uid u) (email u)"
    and s': "snd (login cfg inp s dto) =
        s\<lparr>users := update_refreshToken (users s) (uid u)
             (bcrypt_hash (token_string (HS256 cfg) (pair_refreshToken tokens)) (salt inp))\<rparr>"
    by blast
  have "findOne_by_email (users (snd (login cfg inp s dto))) (login_email dto) =
      Some (u\<lparr>refreshToken :=
        Some (bcrypt_hash (token_string (HS256 cfg) (pair_refreshToken tokens)) (salt inp))\<rparr>)"
    by (simp add: s' findOne_by_email_update u)
  with u c t show "\<exists>u. findOne_by_email (users s) (login_email dto) = Some u \<and>
           bcrypt_compare (login_password dto) (password u) \<and>
           accessToken tokens = Jwt (JWT_SECRET cfg)
             \<lparr>sub = uid u, payload_email = email u, iat = now inp div 1000,
              exp = now inp div 1000 + 900\<rparr> \<and>
           pair_refreshToken tokens = Jwt (JWT_REFRESH_SECRET cfg)
             \<lparr>sub = uid u, payload_email = email u, iat = now inp div 1000,
              exp = now inp div 1000 + 604800\<rparr> \<and>
           findOne_by_email (users (snd (login cfg inp s dto))) (login_email dto) =
             Some (u\<lparr>refreshToken :=
               Some (bcrypt_hash (token_string (HS256 cfg) (pair_refreshToken tokens))
                       (salt inp))\<rparr>)"
    by (intro exI [of _ u]) (simp add: getTokens_pair)
next
  fix tokens and inp2 :: env and s2 :: store and dto2 :: LogInDto
  assume a: "fst (login cfg inp s dto) = Inr tokens \<and> now inp2 div 1000 \<noteq> now inp div 1000"
  show "fst (login cfg inp2 s2 dto2) \<noteq> Inr tokens"
  proof
    assume b: "fst (login cfg inp2 s2 dto2) = Inr tokens"
    from a have a': "fst (login cfg inp s dto) = Inr tokens" by simp
    from login_InrD [OF a'] obtain u :: User where "tokens = getTokens cfg inp (uid u) (email u)"
      by blast
    moreover from login_InrD [OF b] obtain v :: User where "tokens = getTokens cfg inp2 (uid v) (email v)"
      by blast
    ultimately have "now inp2 div 1000 = now inp div 1000" by (simp add: getTokens_pair)
    with a show False by simp
  qed
qed

lemma cfg0_secrets: "JWT_SECRET cfg0 = ''k-access''" "JWT_REFRESH_SECRET cfg0 = ''k-refresh''"
  by (simp_all add: cfg0_def)

lemma alice_fields: "uid alice = ''u1''" "email alice = ''a@x.com''"
  "password alice = bcrypt_hash ''pw1'' ''s1''" "refreshToken alice = None" "role alice = USER"
  by (simp_all add: alice_def)

lemma alice1_fields: "uid alice1 = ''u1''" "email alice1 = ''a@x.com''"
  "password alice1 = bcrypt_hash ''pw1'' ''s1''"
  "refreshToken alice1 = Some (bcrypt_hash (token_string (HS256 cfg0) tokR) ''s9'')"
  by (simp_all add: alice1_def alice_def)

lemma getTokens_examples:
  "getTokens cfg0 env0 ''u1'' ''a@x.com'' = pair0"
  "getTokens cfg0 env_same_second ''u1'' ''a@x.com'' = pair0"
  "getTokens cfg0 env_later ''u1'' ''a@x.com'' = pair_later"
  "getTokens cfg0 env_again ''u1'' ''a@x.com'' = pair_again"
  by (simp_all add: getTokens_pair cfg0_secrets env0_def env_same_second_def env_later_def
        env_again_def pair0_def pair_later_def pair_again_def tokR_def tok_later_def)

lemma store1_alice: "findOne_by_email (users store1) ''a@x.com'' = Some alice1"
  by (simp add: store1_def root_def alice1_def alice_def findOne_by_email_def)

lemma update_store0:
  "store0\<lparr>users := update_refreshToken (users store0) ''u1'' h\<rparr> =
     \<lparr>users = [root, alice\<lparr>refreshToken := Some h\<rparr>], resets = [], outbox = []\<rparr>"
  by (simp add: store0_def update_refreshToken_def root_def alice_def)

lemma update_store1:
  "store1\<lparr>users := update_refreshToken (users store1) ''u1'' h\<rparr> =
     \<lparr>users = [root, alice\<lparr>refreshToken := Some h\<rparr>], resets = [], outbox = []\<rparr>"
  by (simp add: store1_def update_refreshToken_def root_def alice1_def alice_def)

lemma login_store1: "login cfg0 env0 store0 alice_login = (Inr pair0, store1)"
proof -
  have "validateUser store0 ''a@x.com'' ''pw1'' = Some (omit_password alice)"
    by (simp add: validateUser_def store0_alice alice_fields bcrypt_compare_hash)
  moreover have "pair_refreshToken pair0 = tokR" "salt env0 = ''s9''" "update_ok env0"
    by (simp_all add: pair0_def env0_def)
  ultimately show ?thesis
    by (simp add: login_def alice_login_def omit_password_def alice_fields getTokens_examples
          updateRefreshToken_def update_store0 store1_def alice1_def Let_def)
qed

theorem login_outcomes_witness:
  "login cfg0 env0 store0 \<lparr>login_email = ''a@x.com'', login_password = ''bad''\<rparr>
     = (Inl InvalidCredentials, store0) \<and>
   login cfg0 env0 store0 \<lparr>login_email = ''nobody@x.com'', login_password = ''pw1''\<rparr>
     = (Inl InvalidCredentials, store0) \<and>
   fst (login cfg0 env0 store0 alice_login) = Inr pair0 \<and>
   findOne_by_email (users (snd (login cfg0 env0 store0 alice_login))) ''a@x.com'' =
     Some (alice\<lparr>refreshToken := Some (bcrypt_hash (token_string (HS256 cfg0) tokR) ''s9'')\<rparr>) \<and>
   fst (login cfg0 env_later store1 alice_login) \<noteq> Inr pair0"
proof -
  have bad: "\<not> bcrypt_compare ''bad'' (password alice)"
    by (simp add: alice_def bcrypt_compare_def bcrypt_hash_def bcrypt_key_def)
  have good: "bcrypt_compare ''pw1'' (password alice)"
    by (simp add: alice_fields bcrypt_compare_hash)
  have e: "update_ok env0" "salt env0 = ''s9''" "now env0 = 5000" "now env_later = 9000"
    by (simp_all add: env0_def env_later_def)
  have 1: "login cfg0 env0 store0 \<lparr>login_email = ''a@x.com'', login_password = ''bad''\<rparr>
     = (Inl InvalidCredentials, store0)"
    by (rule login_outcomes [THEN conjunct1, rule_format]) (simp add: store0_alice bad)
  have 2: "login cfg0 env0 store0 \<lparr>login_email = ''nobody@x.com'', login_password = ''pw1''\<rparr>
     = (Inl InvalidCredentials, store0)"
    by (rule login_outcomes [THEN conjunct1, rule_format]) (simp add: store0_nobody)
  note L = login_outcomes [of store0 alice_login cfg0 env0]
  have pre: "findOne_by_email (users store0) (login_email alice_login) = Some alice \<and>
        bcrypt_compare (login_password alice_login) (password alice) \<and> update_ok env0"
    using store0_alice good e by (simp add: alice_login_def)
  from L [THEN conjunct2, THEN conjunct2, THEN conjunct1, rule_format, OF pre]
  obtain tokens where t: "fst (login cfg0 env0 store0 alice_login) = Inr tokens" by blast
  from L [THEN conjunct2, THEN conjunct2, THEN conjunct2, THEN conjunct1, rule_format, OF t]
  obtain u where u: "findOne_by_email (users store0) (login_email alice_login) = Some u"
    and a: "accessToken tokens = Jwt (JWT_SECRET cfg0)
             \<lparr>sub = uid u, payload_email = email u, iat = now env0 div 1000,
              exp = now env0 div 1000 + 900\<rparr>"
    and r: "pair_refreshToken tokens = Jwt (JWT_REFRESH_SECRET cfg0)
             \<lparr>sub = uid u, payload_email = email u, iat = now env0 div 1000,
              exp = now env0 div 1000 + 604800\<rparr>"
    and st: "findOne_by_email (users (snd (login cfg0 env0 store0 alice_login)))
               (login_email alice_login) =
             Some (u\<lparr>refreshToken :=
               Some (bcrypt_hash (token_string (HS256 cfg0) (pair_refreshToken tokens))
                       (salt env0))\<rparr>)"
    by blast
  from u store0_alice have ua: "u = alice" by (simp add: alice_login_def)
  from a r have tp: "tokens = pair0"
    by (simp add: ua alice_fields cfg0_secrets e pair0_def tokR_def)
  from t tp have 3: "fst (login cfg0 env0 store0 alice_login) = Inr pair0" by simp
  have rt: "pair_refreshToken pair0 = tokR" by (simp add: pair0_def)
  from st have 4: "findOne_by_email (users (snd (login cfg0 env0 store0 alice_login))) ''a@x.com'' =
     Some (alice\<lparr>refreshToken := Some (bcrypt_hash (token_string (HS256 cfg0) tokR) ''s9'')\<rparr>)"
    by (simp only: tp rt ua e alice_login_def LogInDto.simps)
  have ne: "now env_later div 1000 \<noteq> now env0 div 1000" by (simp add: e)
  from L [THEN conjunct2, THEN conjunct2, THEN conjunct2, THEN conjunct2, rule_format,
      of pair0 env_later store1 alice_login] 3 ne
  have 5: "fst (login cfg0 env_later store1 alice_login) \<noteq> Inr pair0" by blast
  from 1 2 3 4 5 show ?thesis by blast
qed

text \<open>
  C7 as stated fails in the word fresh: a token is a function of the user, the secret
  and the clock in whole seconds, so a second login in the second of the first returns
  the pair the first has returned.
\<close>

theorem login_same_second_counterexample:
  "login cfg0 env0 store0 alice_login = (Inr pair0, store1) \<and>
   fst (login cfg0 env_same_second store1 alice_login) = Inr pair0"
proof -
  have "validateUser store1 ''a@x.com'' ''pw1'' = Some (omit_password alice1)"
    by (simp add: validateUser_def store1_alice alice1_fields bcrypt_compare_hash)
  moreover have "update_ok env_same_second" by (simp add: env_same_second_def)
  ultimately have "fst (login cfg0 env_same_second store1 alice_login) = Inr pair0"
    by (simp add: login_def alice_login_def omit_password_def alice1_fields getTokens_examples
          updateRefreshToken_def Let_def)
  with login_store1 show ?thesis by simp
qed

subsection \<open>Refresh\<close>

lemma verifyAsync_SomeD:
  "verifyAsync t secret n = Some p \<Longrightarrow> t = Jwt secret p \<and> n div 1000 < exp p"
  by (auto simp: verifyAsync_def split: token.splits if_splits)

lemma refreshTokens_success:
  assumes "verifyAsync t (JWT_REFRESH_SECRET cfg) (now inp) = Some p"
    and "findOne_by_id (users s) (sub p) = Some u"
    and "refreshToken u = Some h"
    and "bcrypt_compare (token_string (HS256 cfg) t) h"
    and "update_ok inp"
  shows "refreshTokens cfg inp s t =
     (Inr (getTokens cfg inp (uid u) (email u)),
      s\<lparr>users := update_refreshToken (users s) (uid u)
           (bcrypt_hash (token_string (HS256 cfg)
              (pair_refreshToken (getTokens cfg inp (uid u) (email u)))) (salt inp))\<rparr>)"
  using assms
  by (simp add: refreshTokens_def refreshTokens_try_def updateRefreshToken_def Let_def)

lemma refreshTokens_InrD:
  assumes "fst (refreshTokens cfg inp s t) = Inr tokens"
  shows "\<exists>p u h. verifyAsync t (JWT_REFRESH_SECRET cfg) (now inp) = Some p \<and>
           findOne_by_id (users s) (sub p) = Some u \<and> refreshToken u = Some h \<and>
           bcrypt_compare (token_string (HS256 cfg) t) h \<and> update_ok inp \<and>
           tokens = getTokens cfg inp (uid u) (email u) \<and>
           snd (refreshTokens cfg inp s t) =
             s\<lparr>users := update_refreshToken (users s) (uid u)
                  (bcrypt_hash (token_string (HS256 cfg) (pair_refreshToken tokens))
                     (salt inp))\<rparr>"
  using assms
  by (auto simp: refreshTokens_def refreshTokens_try_def updateRefreshToken_def Let_def
        split: option.splits if_splits prod.splits sum.splits)

text \<open>
  C10, amended. \<^verbatim>\<open>refreshTokens\<close> returns a token pair or fails with
  \<open>InvalidRefreshToken\<close>, leaving the store as it was, and with no other error: a token
  that does not verify (malformed, signed with another secret, expired), a subject with
  no user, a user with no stored digest, a digest that does not match, and a failure of
  the repository update after the token has been validated all give
  \<open>InvalidRefreshToken\<close>. When the token validates and the update works, the pair
  carries the key and the email of the user and the clock second of the call, the access
  token signed with the access secret for 15 minutes and the refresh token with the
  refresh secret for 7 days. Its refresh token is not the presented token unless that
  was issued in the clock second of the call.
\<close>

theorem refreshTokens_outcomes:
  "((\<exists>tokens. fst (refreshTokens cfg inp s t) = Inr tokens) \<or>
    refreshTokens cfg inp s t = (Inl InvalidRefreshToken, s)) \<and>
   (verifyAsync t (JWT_REFRESH_SECRET cfg) (now inp) = None \<longrightarrow>
      refreshTokens cfg inp s t = (Inl InvalidRefreshToken, s)) \<and>
   (\<forall>p. verifyAsync t (JWT_REFRESH_SECRET cfg) (now inp) = Some p \<longrightarrow>
      (findOne_by_id (users s) (sub p) = None \<longrightarrow>
         refreshTokens cfg inp s t = (Inl InvalidRefreshToken, s)) \<and>
      (\<forall>u. findOne_by_id (users s) (sub p) = Some u \<longrightarrow>
         (refreshToken u = None \<longrightarrow>
            refreshTokens cfg inp s t = (Inl InvalidRefreshToken, s)) \<and>
         (\<forall>h. refreshToken u = Some h \<longrightarrow>
            (\<not> bcrypt_compare (token_string (HS256 cfg) t) h \<longrightarrow>
               refreshTokens cfg inp s t = (Inl InvalidRefreshToken, s)) \<and>
            (bcrypt_compare (token_string (HS256 cfg) t) h \<and> \<not> update_ok inp \<longrightarrow>
               refreshTokens cfg inp s t = (Inl InvalidRefreshToken, s)) \<and>
            (bcrypt_compare (token_string (HS256 cfg) t) h \<and> update_ok inp \<longrightarrow>
               fst (refreshTokens cfg inp s t) =
                 Inr \<lparr>accessToken = Jwt (JWT_SECRET cfg)
                        \<lparr>sub = uid u, payload_email = email u, iat = now inp div 1000,
                         exp = now inp div 1000 + 900\<rparr>,
                      pair_refreshToken = Jwt (JWT_REFRESH_SECRET cfg)
                        \<lparr>sub = uid u, payload_email = email u, iat = now inp div 1000,
                         exp = now inp div 1000 + 604800\<rparr>\<rparr>)))) \<and>
   (\<forall>tokens p. fst (refreshTokens cfg inp s t) = Inr tokens \<and>
        verifyAsync t (JWT_REFRESH_SECRET cfg) (now inp) = Some p \<and>
        iat p \<noteq> now inp div 1000 \<longrightarrow>
        pair_refreshToken tokens \<noteq> t)"
proof -
  have A: "((\<exists>tokens. fst (refreshTokens cfg inp s t) = Inr tokens) \<or>
    refreshTokens cfg inp s t = (Inl InvalidRefreshToken, s)) \<and>
   (verifyAsync t (JWT_REFRESH_SECRET cfg) (now inp) = None \<longrightarrow>
      refreshTokens cfg inp s t = (Inl InvalidRefreshToken, s)) \<and>
   (\<forall>p. verifyAsync t (JWT_REFRESH_SECRET cfg) (now inp) = Some p \<longrightarrow>
      (findOne_by_id (users s) (sub p) = None \<longrightarrow>
         refreshTokens cfg inp s t = (Inl InvalidRefreshToken, s)) \<and>
      (\<forall>u. findOne_by_id (users s) (sub p) = Some u \<longrightarrow>
         (refreshToken u = None \<longrightarrow>
            refreshTokens cfg inp s t = (Inl InvalidRefreshToken, s)) \<and>
         (\<forall>h. refreshToken u = Some h \<longrightarrow>
            (\<not> bcrypt_compare (token_string (HS256 cfg) t) h \<longrightarrow>
               refreshTokens cfg inp s t = (Inl InvalidRefreshToken, s)) \<and>
            (bcrypt_compare (token_string (HS256 cfg) t) h \<and> \<not> update_ok inp \<longrightarrow>
               refreshTokens cfg inp s t = (Inl InvalidRefreshToken, s)) \<and>
            (bcrypt_compare (token_string (HS256 cfg) t) h \<and> update_ok inp \<longrightarrow>
               fst (refreshTokens cfg inp s t) =
                 Inr \<lparr>accessToken = Jwt (JWT_SECRET cfg)
                        \<lparr>sub = uid u, payload_email = email u, iat = now inp div 1000,
                         exp = now inp div 1000 + 900\<rparr>,
                      pair_refreshToken = Jwt (JWT_REFRESH_SECRET cfg)
                        \<lparr>sub = uid u, payload_email = email u, iat = now inp div 1000,
                         exp = now inp div 1000 + 604800\<rparr>\<rparr>))))"
    by (auto simp: refreshTokens_def refreshTokens_try_def updateRefreshToken_def
          InvalidRefreshToken_def Let_def getTokens_pair split: option.splits)
  have B: "pair_refreshToken tokens \<noteq> t"
    if ok: "fst (refreshTokens cfg inp s t) = Inr tokens"
      and v: "verifyAsync t (JWT_REFRESH_SECRET cfg) (now inp) = Some p"
      and ne: "iat p \<noteq> now inp div 1000" for tokens p
  proof
    assume eq: "pair_refreshToken tokens = t"
    from refreshTokens_InrD [OF ok] obtain u :: User where
      "tokens = getTokens cfg inp (uid u) (email u)" by blast
    then have "iat (payload (pair_refreshToken tokens)) = now inp div 1000"
      by (simp add: getTokens_pair)
    moreover from v have "payload t = p" by (auto dest: verifyAsync_SomeD)
    ultimately show False using eq ne by simp
  qed
  from A B show ?thesis by blast
qed

lemma verify_tokR:
  "verifyAsync tokR (JWT_REFRESH_SECRET cfg0) 5400 = Some (payload tokR)"
  "verifyAsync tokR (JWT_REFRESH_SECRET cfg0) 9000 = Some (payload tokR)"
  "verifyAsync tokR (JWT_REFRESH_SECRET cfg0) 12000 = Some (payload tokR)"
  by (simp_all add: verifyAsync_def tokR_def cfg0_def)

lemma tokR_payload: "sub (payload tokR) = ''u1''" "payload_email (payload tokR) = ''a@x.com''"
  "iat (payload tokR) = 5"
  by (simp_all add: tokR_def)

lemma store1_alice1: "findOne_by_id (users store1) ''u1'' = Some alice1"
  by (simp add: findOne_by_id_def store1_def root_def alice1_def alice_def)

lemma store0_alice_id: "findOne_by_id (users store0) ''u1'' = Some alice"
  by (simp add: findOne_by_id_def store0_def root_def alice_def)

lemma refresh_later: "refreshTokens cfg0 env_later store1 tokR = (Inr pair_later, store_later)"
proof -
  have e: "now env_later = 9000" "update_ok env_later" "salt env_later = ''s11''"
    by (simp_all add: env_later_def)
  have "refreshTokens cfg0 env_later store1 tokR =
     (Inr (getTokens cfg0 env_later (uid alice1) (email alice1)),
      store1\<lparr>users := update_refreshToken (users store1) (uid alice1)
           (bcrypt_hash (token_string (HS256 cfg0)
              (pair_refreshToken (getTokens cfg0 env_later (uid alice1) (email alice1))))
              (salt env_later))\<rparr>)"
    by (rule refreshTokens_success [where p = "payload tokR" and
            h = "bcrypt_hash (token_string (HS256 cfg0) tokR) ''s9''"])
       (simp_all add: e verify_tokR tokR_payload store1_alice1 alice1_fields bcrypt_compare_hash)
  then show ?thesis
    by (simp add: alice1_fields getTokens_examples update_store1 e store_later_def
          pair_later_def)
qed

lemma refresh_same_second:
  "refreshTokens cfg0 env_same_second store1 tokR = (Inr pair0, store_same_second)"
proof -
  have e: "now env_same_second = 5400" "update_ok env_same_second"
    "salt env_same_second = ''s10''"
    by (simp_all add: env_same_second_def)
  have "refreshTokens cfg0 env_same_second store1 tokR =
     (Inr (getTokens cfg0 env_same_second (uid alice1) (email alice1)),
      store1\<lparr>users := update_refreshToken (users store1) (uid alice1)
           (bcrypt_hash (token_string (HS256 cfg0)
              (pair_refreshToken (getTokens cfg0 env_same_second (uid alice1) (email alice1))))
              (salt env_same_second))\<rparr>)"
    by (rule refreshTokens_success [where p = "payload tokR" and
            h = "bcrypt_hash (token_string (HS256 cfg0) tokR) ''s9''"])
       (simp_all add: e verify_tokR tokR_payload store1_alice1 alice1_fields bcrypt_compare_hash)
  then show ?thesis
    by (simp add: alice1_fields getTokens_examples update_store1 e store_same_second_def
          pair0_def)
qed

theorem refreshTokens_outcomes_witness:
  "refreshTokens cfg0 env_later store1 (Opaque ''garbage'') = (Inl InvalidRefreshToken, store1) \<and>
   refreshTokens cfg0 env_later store0 tokR = (Inl InvalidRefreshToken, store0) \<and>
   refreshTokens cfg0 env_db_down store1 tokR = (Inl InvalidRefreshToken, store1) \<and>
   fst (refreshTokens cfg0 env_later store1 tokR) = Inr pair_later \<and>
   pair_refreshToken pair_later \<noteq> tokR"
proof -
  have 1: "refreshTokens cfg0 env_later store1 (Opaque ''garbage'') = (Inl InvalidRefreshToken, store1)"
    by (rule refreshTokens_outcomes [THEN conjunct2, THEN conjunct1, rule_format])
       (simp add: verifyAsync_def)
  have e: "now env_later = 9000" "update_ok env_later" "now env_db_down = 9000"
    "\<not> update_ok env_db_down"
    by (simp_all add: env_later_def env_db_down_def)
  have v: "verifyAsync tokR (JWT_REFRESH_SECRET cfg0) (now env_later) = Some (payload tokR)"
    "verifyAsync tokR (JWT_REFRESH_SECRET cfg0) (now env_db_down) = Some (payload tokR)"
    by (simp_all add: verify_tokR e)
  have cmp: "bcrypt_compare (token_string (HS256 cfg0) tokR)
               (bcrypt_hash (token_string (HS256 cfg0) tokR) ''s9'')"
    by (rule bcrypt_compare_hash)
  note R0 = refreshTokens_outcomes [THEN conjunct2, THEN conjunct2, THEN conjunct1, rule_format]
  have 2: "refreshTokens cfg0 env_later store0 tokR = (Inl InvalidRefreshToken, store0)"
    using R0 [OF v(1), THEN conjunct2, rule_format, of store0 alice, THEN conjunct1]
    by (simp add: tokR_payload store0_alice_id alice_fields)
  note R = R0 [THEN conjunct2, rule_format, THEN conjunct2, rule_format]
  have 3: "refreshTokens cfg0 env_db_down store1 tokR = (Inl InvalidRefreshToken, store1)"
    using R [OF v(2), of store1 alice1 "bcrypt_hash (token_string (HS256 cfg0) tokR) ''s9''",
        THEN conjunct2, THEN conjunct1] cmp
    by (simp add: tokR_payload store1_alice1 alice1_fields e)
  have 4: "fst (refreshTokens cfg0 env_later store1 tokR) = Inr pair_later"
    using R [OF v(1), of store1 alice1 "bcrypt_hash (token_string (HS256 cfg0) tokR) ''s9''",
        THEN conjunct2, THEN conjunct2] cmp
    by (simp add: tokR_payload store1_alice1 alice1_fields e cfg0_secrets pair_later_def
          tok_later_def)
  have "iat (payload tokR) \<noteq> now env_later div 1000" by (simp add: tokR_payload e)
  with refreshTokens_outcomes [THEN conjunct2, THEN conjunct2, THEN conjunct2, rule_format,
      of cfg0 env_later store1 tokR pair_later "payload tokR"] 4 v(1)
  have 5: "pair_refreshToken pair_later \<noteq> tokR" by blast
  from 1 2 3 4 5 show ?thesis by blast
qed

text \<open>
  C10 as stated fails in the word fresh: a refresh in the clock second in which the
  presented token was issued returns the pair of that second, so the refresh token it
  returns is the token presented.
\<close>

theorem refreshTokens_same_second_counterexample:
  "refreshTokens cfg0 env_same_second store1 tokR = (Inr pair0, store_same_second) \<and>
   pair_refreshToken pair0 = tokR"
  using refresh_same_second by (simp add: pair0_def)

text \<open>
  Whatever the clock, a refresh accepts the token of an earlier rotation: when a refresh
  has succeeded, the token it was given still carries the email of the user and has not
  expired, a later refresh that presents the same token succeeds again.
\<close>

lemma refreshTokens_accepts_previous:
  assumes ok: "fst (refreshTokens cfg inp s t) = Inr tokens"
    and v': "verifyAsync t (JWT_REFRESH_SECRET cfg) (now inp') = Some p"
    and u: "findOne_by_id (users s) (sub p) = Some u"
    and m: "payload_email p = email u"
    and up: "update_ok inp'"
  shows "\<exists>tokens'. fst (refreshTokens cfg inp' (snd (refreshTokens cfg inp s t)) t) = Inr tokens'"
proof -
  from refreshTokens_InrD [OF ok] obtain p0 u0 where
    v: "verifyAsync t (JWT_REFRESH_SECRET cfg) (now inp) = Some p0"
    and u0: "findOne_by_id (users s) (sub p0) = Some u0"
    and t: "tokens = getTokens cfg inp (uid u0) (email u0)"
    and s': "snd (refreshTokens cfg inp s t) =
             s\<lparr>users := update_refreshToken (users s) (uid u0)
                  (bcrypt_hash (token_string (HS256 cfg) (pair_refreshToken tokens))
                     (salt inp))\<rparr>"
    by blast
  from v v' have pp: "p0 = p" by (auto dest: verifyAsync_SomeD)
  with u u0 have uu: "u0 = u" by simp
  from u have id: "uid u = sub p" by (simp add: findOne_by_id_SomeD)
  from v' have tj: "t = Jwt (JWT_REFRESH_SECRET cfg) p" by (auto dest: verifyAsync_SomeD)
  let ?h = "bcrypt_hash (token_string (HS256 cfg) (pair_refreshToken tokens)) (salt inp)"
  let ?s' = "snd (refreshTokens cfg inp s t)"
  have f: "findOne_by_id (users ?s') (sub p) = Some (u\<lparr>refreshToken := Some ?h\<rparr>)"
    by (simp add: s' uu findOne_by_id_update u id)
  have r: "pair_refreshToken tokens = Jwt (JWT_REFRESH_SECRET cfg)
        \<lparr>sub = uid u, payload_email = email u, iat = now inp div 1000,
         exp = now inp div 1000 + 604800\<rparr>"
    by (simp add: t uu getTokens_pair)
  have c: "bcrypt_compare (token_string (HS256 cfg) t) ?h"
    unfolding tj r by (rule bcrypt_compare_same_user) (simp_all add: id m)
  from refreshTokens_success [OF v' f _ c up] show ?thesis by simp
qed

text \<open>
  C4 fails on the code. The digest that \<^verbatim>\<open>updateRefreshToken\<close> stores is the digest of
  the first 72 bytes of the new refresh token, and these bytes end before the claims
  \<^verbatim>\<open>iat\<close> and \<^verbatim>\<open>exp\<close>: they are the same in every refresh token of the user. The
  user logs in at 5000 ms and refreshes at 9000 ms with the token of the login; the
  refresh returns another refresh token and stores its digest. At 12000 ms the token of
  the login, which the rotation should have made invalid, is accepted again.
\<close>

theorem refreshTokens_accepts_rotated_token:
  "login cfg0 env0 store0 alice_login = (Inr pair0, store1) \<and>
   pair_refreshToken pair0 = tokR \<and>
   refreshTokens cfg0 env_later store1 tokR = (Inr pair_later, store_later) \<and>
   pair_refreshToken pair_later \<noteq> tokR \<and>
   refreshTokens cfg0 env_again store_later tokR = (Inr pair_again, store_again) \<and>
   fst (refreshTokens cfg0 env_again store_later tokR) \<noteq> Inl InvalidRefreshToken"
proof -
  have e: "now env_again = 12000" "update_ok env_again" "salt env_again = ''s12''"
    by (simp_all add: env_again_def)
  let ?a = "alice\<lparr>refreshToken :=
              Some (bcrypt_hash (token_string (HS256 cfg0) tok_later) ''s11'')\<rparr>"
  have a: "findOne_by_id (users store_later) ''u1'' = Some ?a"
    by (simp add: findOne_by_id_def store_later_def root_def alice_def)
  have af: "uid ?a = ''u1''" "email ?a = ''a@x.com''"
    "refreshToken ?a = Some (bcrypt_hash (token_string (HS256 cfg0) tok_later) ''s11'')"
    by (simp_all add: alice_fields)
  have c: "bcrypt_compare (token_string (HS256 cfg0) tokR)
             (bcrypt_hash (token_string (HS256 cfg0) tok_later) ''s11'')"
    unfolding tokR_def tok_later_def by (rule bcrypt_compare_same_user) simp_all
  have "refreshTokens cfg0 env_again store_later tokR =
     (Inr (getTokens cfg0 env_again (uid ?a) (email ?a)),
      store_later\<lparr>users := update_refreshToken (users store_later) (uid ?a)
           (bcrypt_hash (token_string (HS256 cfg0)
              (pair_refreshToken (getTokens cfg0 env_again (uid ?a) (email ?a))))
              (salt env_again))\<rparr>)"
    by (rule refreshTokens_success [where p = "payload tokR" and
            h = "bcrypt_hash (token_string (HS256 cfg0) tok_later) ''s11''"])
       (simp_all add: e verify_tokR tokR_payload a af c)
  then have 3: "refreshTokens cfg0 env_again store_later tokR = (Inr pair_again, store_again)"
    by (simp add: af getTokens_examples e store_later_def store_again_def
          update_refreshToken_def root_def alice_def)
  have 2: "pair_refreshToken pair_later \<noteq> tokR"
    by (simp add: pair_later_def tok_later_def tokR_def)
  have 1: "pair_refreshToken pair0 = tokR" by (simp add: pair0_def)
  from login_store1 1 refresh_later 2 3 show ?thesis by simp
qed

subsection \<open>Password reset\<close>





text \<open>
  The tokens of the stored requests stay pairwise distinct along the operations, as long
  as the random bytes of a new request are not the token of a stored one.
\<close>

lemma distinct_tokens_exec:
  assumes d: "distinct (map token (resets s))"
    and fresh: "\<And>mail. c = SendPasswordResetEmail mail \<Longrightarrow>
                  rand_token inp \<notin> token ` set (resets s)"
  shows "distinct (map token (resets (exec cfg inp c s)))"
proof (cases c)
  case (Register dto)
  with d show ?thesis by (simp add: register_def Let_def split: option.splits)
next
  case (Login dto)
  with d show ?thesis
    by (simp add: login_def updateRefreshToken_def Let_def split: option.splits)
next
  case (RefreshTokens t)
  with d show ?thesis
    by (simp add: refreshTokens_def refreshTokens_try_def updateRefreshToken_def Let_def
          split: option.splits)
next
  case (SendPasswordResetEmail mail)
  with d fresh [OF SendPasswordResetEmail] show ?thesis
    by (simp add: sendPasswordResetEmail_def Let_def split: option.splits)
next
  case (ResetPassword tok pw)
  with d show ?thesis
    by (simp add: resetPassword_def delete_reset_def Let_def distinct_map_filter
          split: option.splits)
next
  case (PromoteToAdmin r t)
  with d show ?thesis by (simp add: promoteToAdmin_def Let_def split: option.splits)
qed





subsection \<open>Request of a password reset\<close>

lemma findOne_by_email_SomeD:
  "findOne_by_email us e = Some u \<Longrightarrow> u \<in> set us \<and> email u = e"
  unfolding findOne_by_email_def by (induction us) (auto split: if_splits)

lemma findOne_reset_append_new:
  "findOne_reset rs (token r) = None \<Longrightarrow> findOne_reset (rs @ [r]) (token r) = Some r"
  unfolding findOne_reset_def by (induction rs) (auto split: if_splits)

text \<open>
  C3, amended. When the user exists and the mail service fails,
  \<^verbatim>\<open>sendPasswordResetEmail\<close> has saved the request before the failure and saves nothing
  else, and the request stays valid: where its token is not the token of an older request,
  \<^verbatim>\<open>resetPassword\<close> with that token succeeds at any clock up to the expiry, fifteen
  minutes after the request. The call itself fails with the error of the mail service:
  the mail is awaited with no handler, so the caller sees the failure.
\<close>

theorem sendPasswordResetEmail_dispatch_failure:
  "findOne_by_email (users s) mail = Some u \<and> \<not> mail_ok inp \<longrightarrow>
     sendPasswordResetEmail inp s mail =
       (Inl DeliveryError,
        s\<lparr>resets := resets s @
             [\<lparr>rid = new_id inp, reset_user = uid u, token = rand_token inp,
               expiresAt = now inp + 15 * 60 * 1000\<rparr>]\<rparr>) \<and>
     (findOne_reset (resets s) (rand_token inp) = None \<longrightarrow>
        (\<forall>inp' pw. now inp' \<le> now inp + 15 * 60 * 1000 \<longrightarrow>
           fst (resetPassword inp' (snd (sendPasswordResetEmail inp s mail)) (rand_token inp) pw)
             = Inr ()))"
proof (intro impI)
  assume a: "findOne_by_email (users s) mail = Some u \<and> \<not> mail_ok inp"
  let ?r = "\<lparr>rid = new_id inp, reset_user = uid u, token = rand_token inp,
               expiresAt = now inp + 15 * 60 * 1000\<rparr>"
  let ?s' = "s\<lparr>resets := resets s @ [?r]\<rparr>"
  from a have res: "sendPasswordResetEmail inp s mail = (Inl DeliveryError, ?s')"
    by (simp add: sendPasswordResetEmail_def Let_def)
  from a have "u \<in> set (users s)" by (auto dest: findOne_by_email_SomeD)
  then have "findOne_by_id (users s) (uid u) \<noteq> None"
    by (auto simp: findOne_by_id_None_iff)
  then obtain v where v: "findOne_by_id (users s) (uid u) = Some v" by blast
  have valid: "fst (resetPassword inp' ?s' (rand_token inp) pw) = Inr ()"
    if fresh: "findOne_reset (resets s) (rand_token inp) = None"
      and t: "now inp' \<le> now inp + 15 * 60 * 1000" for inp' pw
  proof -
    have "findOne_reset (resets s @ [?r]) (token ?r) = Some ?r"
      by (rule findOne_reset_append_new) (simp add: fresh)
    then have "findOne_reset (resets ?s') (rand_token inp) = Some ?r" by simp
    with t v show ?thesis by (simp add: resetPassword_def Let_def)
  qed
  from res valid show "sendPasswordResetEmail inp s mail = (Inl DeliveryError, ?s') \<and>
     (findOne_reset (resets s) (rand_token inp) = None \<longrightarrow>
        (\<forall>inp' pw. now inp' \<le> now inp + 15 * 60 * 1000 \<longrightarrow>
           fst (resetPassword inp' (snd (sendPasswordResetEmail inp s mail)) (rand_token inp) pw)
             = Inr ()))"
    by simp
qed

theorem sendPasswordResetEmail_dispatch_failure_witness:
  "sendPasswordResetEmail env_mail_down store0 ''a@x.com'' =
     (Inl DeliveryError, store0\<lparr>resets := [reset0]\<rparr>) \<and>
   fst (resetPassword env_later (snd (sendPasswordResetEmail env_mail_down store0 ''a@x.com''))
          ''c0ffee'' ''pw2'') = Inr ()"
proof -
  have pre: "findOne_by_email (users store0) ''a@x.com'' = Some alice \<and> \<not> mail_ok env_mail_down"
    by (simp add: store0_alice env_mail_down_def)
  have e: "new_id env_mail_down = ''n2''" "rand_token env_mail_down = ''c0ffee''"
    "now env_mail_down = 5000" "now env_later = 9000" "uid alice = ''u1''"
    "resets store0 = []"
    by (simp_all add: env_mail_down_def env0_def env_later_def alice_def store0_def)
  note T = sendPasswordResetEmail_dispatch_failure [rule_format, OF pre]
  have 1: "sendPasswordResetEmail env_mail_down store0 ''a@x.com'' =
     (Inl DeliveryError, store0\<lparr>resets := [reset0]\<rparr>)"
    using T [THEN conjunct1] by (simp add: e reset0_def)
  have 2: "fst (resetPassword env_later (snd (sendPasswordResetEmail env_mail_down store0 ''a@x.com''))
          ''c0ffee'' ''pw2'') = Inr ()"
    using T [THEN conjunct2, rule_format, of env_later "''pw2''"]
    by (simp add: e findOne_reset_def)
  from 1 2 show ?thesis by blast
qed

text \<open>
  C3 as stated fails: the user exists, the mail service fails, and the caller gets the
  error of the mail service instead of a success.
\<close>

theorem sendPasswordResetEmail_dispatch_failure_counterexample:
  "findOne_by_email (users store0) ''a@x.com'' = Some alice \<and> \<not> mail_ok env_mail_down \<and>
   fst (sendPasswordResetEmail env_mail_down store0 ''a@x.com'') = Inl DeliveryError \<and>
   fst (sendPasswordResetEmail env_mail_down store0 ''a@x.com'') \<noteq> Inr ()"
  by (simp add: sendPasswordResetEmail_def Let_def store0_alice env_mail_down_def)

text \<open>
  C6, amended. For an email that belongs to no user, \<^verbatim>\<open>sendPasswordResetEmail\<close>
  returns success and leaves the store as it was: no request is created, no row changes,
  no mail is handed to the mail service. Its result is the result of every call for the
  email of an existing user in which the mail service works.
\<close>

theorem sendPasswordResetEmail_unknown_email:
  "findOne_by_email (users s) mail = None \<longrightarrow>
     sendPasswordResetEmail inp s mail = (Inr (), s) \<and>
     (\<forall>inp2 s2 mail2. findOne_by_email (users s2) mail2 \<noteq> None \<and> mail_ok inp2 \<longrightarrow>
        fst (sendPasswordResetEmail inp2 s2 mail2) = fst (sendPasswordResetEmail inp s mail))"
  by (auto simp: sendPasswordResetEmail_def Let_def)

theorem sendPasswordResetEmail_unknown_email_witness:
  "sendPasswordResetEmail env0 store0 ''nobody@x.com'' = (Inr (), store0) \<and>
   fst (sendPasswordResetEmail env0 store0 ''a@x.com'') =
     fst (sendPasswordResetEmail env0 store0 ''nobody@x.com'')"
proof -
  note T = sendPasswordResetEmail_unknown_email [rule_format, OF store0_nobody, of env0]
  have "findOne_by_email (users store0) ''a@x.com'' \<noteq> None \<and> mail_ok env0"
    by (simp add: store0_alice env0_def)
  from T [THEN conjunct1] T [THEN conjunct2, rule_format, OF this] show ?thesis by blast
qed

text \<open>
  C6 as stated fails in its last part: when the mail service fails, the call for the
  email of an existing user returns an error, and the call for an email of no user
  returns success, so the two results differ.
\<close>

theorem sendPasswordResetEmail_unknown_email_counterexample:
  "sendPasswordResetEmail env_mail_down store0 ''nobody@x.com'' = (Inr (), store0) \<and>
   fst (sendPasswordResetEmail env_mail_down store0 ''a@x.com'') = Inl DeliveryError \<and>
   fst (sendPasswordResetEmail env_mail_down store0 ''nobody@x.com'') \<noteq>
     fst (sendPasswordResetEmail env_mail_down store0 ''a@x.com'')"
  by (simp add: sendPasswordResetEmail_def Let_def store0_alice store0_nobody env_mail_down_def)

subsection \<open>Roles along a run\<close>

lemma admin_ids_iff: "i \<in> admin_ids s \<longleftrightarrow> (\<exists>u\<in>set (users s). uid u = i \<and> role u = ADMIN)"
  by (auto simp: admin_ids_def)

lemma admins_map_preserving:
  "(\<And>x. uid (f x) = uid x \<and> role (f x) = role x) \<Longrightarrow>
   map uid (filter (\<lambda>u. role u = ADMIN) (map f us)) = map uid (filter (\<lambda>u. role u = ADMIN) us)"
  by (induction us) simp_all

lemma admin_ids_update_refreshToken:
  "admin_ids (s\<lparr>users := update_refreshToken (users s) i h\<rparr>) = admin_ids s"
proof -
  have "map uid (filter (\<lambda>u. role u = ADMIN) (update_refreshToken (users s) i h)) =
        map uid (filter (\<lambda>u. role u = ADMIN) (users s))"
    unfolding update_refreshToken_def by (rule admins_map_preserving) simp
  then show ?thesis by (simp add: admin_ids_def)
qed

lemma set_save_user:
  "x \<in> set (save_user us u) \<Longrightarrow> x \<in> set us \<or> x = u"
  by (auto simp: save_user_def split: if_splits)

lemma admin_ids_save_user:
  "admin_ids (s\<lparr>users := save_user (users s) u, resets := rs\<rparr>)
     \<subseteq> admin_ids s \<union> (if role u = ADMIN then {uid u} else {})"
  by (auto simp: admin_ids_iff dest!: set_save_user)

lemma admin_ids_save_user':
  "admin_ids (s\<lparr>users := save_user (users s) u\<rparr>)
     \<subseteq> admin_ids s \<union> (if role u = ADMIN then {uid u} else {})"
  by (auto simp: admin_ids_iff dest!: set_save_user)

lemma admin_ids_register: "reg_role dto \<noteq> ADMIN \<Longrightarrow> admin_ids (snd (register inp s dto)) \<subseteq> admin_ids s"
  by (auto simp: register_def Let_def admin_ids_iff split: option.splits)

lemma admin_ids_login: "admin_ids (snd (login cfg inp s dto)) = admin_ids s"
  by (simp add: login_def updateRefreshToken_def Let_def admin_ids_update_refreshToken
        split: option.splits)

lemma admin_ids_refreshTokens: "admin_ids (snd (refreshTokens cfg inp s t)) = admin_ids s"
  by (simp add: refreshTokens_def refreshTokens_try_def updateRefreshToken_def Let_def
        admin_ids_update_refreshToken split: option.splits)

lemma admin_ids_send: "admin_ids (snd (sendPasswordResetEmail inp s mail)) = admin_ids s"
  by (simp add: sendPasswordResetEmail_def Let_def admin_ids_def split: option.splits)

lemma admin_ids_resetPassword: "admin_ids (snd (resetPassword inp s tok pw)) \<subseteq> admin_ids s"
proof (cases "\<exists>r u. findOne_reset (resets s) tok = Some r \<and> \<not> expiresAt r < now inp \<and>
          findOne_by_id (users s) (reset_user r) = Some u")
  case True
  then obtain r u where r: "findOne_reset (resets s) tok = Some r" "\<not> expiresAt r < now inp"
    and u: "findOne_by_id (users s) (reset_user r) = Some u" by blast
  let ?u = "u\<lparr>password := bcrypt_hash pw (salt inp)\<rparr>"
  from u have uin: "u \<in> set (users s)" by (auto dest: findOne_by_id_SomeD)
  have "admin_ids (s\<lparr>users := save_user (users s) ?u, resets := delete_reset (resets s) (rid r)\<rparr>)
          \<subseteq> admin_ids s \<union> (if role ?u = ADMIN then {uid ?u} else {})"
    by (rule admin_ids_save_user)
  also have "\<dots> \<subseteq> admin_ids s" using uin by (auto simp: admin_ids_iff)
  finally show ?thesis using r u by (simp add: resetPassword_def Let_def)
next
  case False
  then have "snd (resetPassword inp s tok pw) = s"
    by (auto simp: resetPassword_def Let_def split: option.splits)
  then show ?thesis by simp
qed

lemma admin_ids_promoteToAdmin:
  "admin_ids (snd (promoteToAdmin s r t)) \<subseteq> admin_ids s \<union> promotes s (PromoteToAdmin r t)"
proof (cases "\<exists>q u. findOne_by_id (users s) r = Some q \<and> role q = SUPER_ADMIN \<and>
     findOne_by_id (users s) t = Some u")
  case True
  then obtain q u where q: "findOne_by_id (users s) r = Some q" "role q = SUPER_ADMIN"
    and u: "findOne_by_id (users s) t = Some u" by blast
  from u have "uid u = t" by (simp add: findOne_by_id_SomeD)
  with admin_ids_save_user' [of s "u\<lparr>role := ADMIN\<rparr>"] q u
  show ?thesis by (simp add: promoteToAdmin_def promotes_def Let_def)
next
  case False
  then have "snd (promoteToAdmin s r t) = s"
    by (auto simp: promoteToAdmin_def Let_def split: option.splits)
  then show ?thesis by simp
qed

lemma admin_ids_exec:
  "\<not> asks_admin c \<Longrightarrow> admin_ids (exec cfg inp c s) \<subseteq> admin_ids s \<union> promotes s c"
proof (cases c)
  case (Register dto)
  assume "\<not> asks_admin c"
  with Register admin_ids_register [of dto inp s] show ?thesis by auto
next
  case (Login dto)
  then show ?thesis by (simp add: admin_ids_login)
next
  case (RefreshTokens t)
  then show ?thesis by (simp add: admin_ids_refreshTokens)
next
  case (SendPasswordResetEmail m)
  then show ?thesis by (simp add: admin_ids_send)
next
  case (ResetPassword tok pw)
  with admin_ids_resetPassword [of inp s tok pw] show ?thesis by auto
next
  case (PromoteToAdmin r t)
  with admin_ids_promoteToAdmin [of s r t] show ?thesis by simp
qed

lemma admin_ids_run:
  "\<forall>(inp, c)\<in>set ops. \<not> asks_admin c \<Longrightarrow>
   admin_ids (run cfg s ops) \<subseteq> admin_ids s \<union> promoted cfg s ops"
proof (induction ops arbitrary: s)
  case Nil
  then show ?case by simp
next
  case (Cons a ops)
  obtain inp c where a: "a = (inp, c)" by (cases a)
  from Cons.prems a have c: "\<not> asks_admin c" and rest: "\<forall>(inp, c)\<in>set ops. \<not> asks_admin c"
    by auto
  from Cons.IH [OF rest, of "exec cfg inp c s"] admin_ids_exec [OF c, of cfg inp s]
  show ?case by (auto simp: a)
qed

text \<open>
  C1, amended. For every sequence of operations that starts from a store with no
  \<open>ADMIN\<close> user and in which no registration asks for the role \<open>ADMIN\<close>, every user
  that holds \<open>ADMIN\<close> at the end was the target of a \<^verbatim>\<open>promoteToAdmin\<close> of the
  sequence that succeeded and whose requester held \<open>SUPER_ADMIN\<close> when it was called.
  And \<^verbatim>\<open>register\<close> creates a user whose role is \<open>ADMIN\<close> or \<open>SUPER_ADMIN\<close> only
  when its DTO carries that role.
\<close>

theorem admin_only_by_promotion:
  "((\<forall>u\<in>set (users s). role u \<noteq> ADMIN) \<and> (\<forall>(inp, c)\<in>set ops. \<not> asks_admin c) \<longrightarrow>
      (\<forall>u\<in>set (users (run cfg s ops)). role u = ADMIN \<longrightarrow> uid u \<in> promoted cfg s ops)) \<and>
   (\<forall>u\<in>set (users (snd (register inp s dto))).
      u \<in> set (users s) \<or> role u = USER \<or> role u = reg_role dto)"
proof (intro impI conjI ballI)
  fix u
  assume a: "(\<forall>u\<in>set (users s). role u \<noteq> ADMIN) \<and> (\<forall>(inp, c)\<in>set ops. \<not> asks_admin c)"
    and u: "u \<in> set (users (run cfg s ops))" "role u = ADMIN"
  from a have "admin_ids s = {}" by (auto simp: admin_ids_iff)
  moreover from u have "uid u \<in> admin_ids (run cfg s ops)" by (auto simp: admin_ids_iff)
  moreover from a have "admin_ids (run cfg s ops) \<subseteq> admin_ids s \<union> promoted cfg s ops"
    by (intro admin_ids_run) simp
  ultimately show "uid u \<in> promoted cfg s ops" by auto
next
  fix u
  assume "u \<in> set (users (snd (register inp s dto)))"
  then show "u \<in> set (users s) \<or> role u = USER \<or> role u = reg_role dto"
    by (auto simp: register_def Let_def split: option.splits)
qed

lemma run_ops_promote:
  "users (run cfg0 store0 ops_promote) =
     [root, alice\<lparr>role := ADMIN\<rparr>,
      \<lparr>uid = ''n2'', email = ''b@x.com'', password = bcrypt_hash ''pw2'' ''s9'', role = USER,
       refreshToken = None\<rparr>]"
  by (simp add: ops_promote_def register_def promoteToAdmin_def findOne_by_email_def
        findOne_by_id_def save_user_def bcrypt_hash_def Let_def store0_def root_def alice_def
        bob_dto_def env0_def)

theorem admin_only_by_promotion_witness:
  "map role (users store0) = [SUPER_ADMIN, USER] \<and>
   map (asks_admin \<circ> snd) ops_promote = [False, False] \<and>
   alice\<lparr>role := ADMIN\<rparr> \<in> set (users (run cfg0 store0 ops_promote)) \<and>
   uid (alice\<lparr>role := ADMIN\<rparr>) \<in> promoted cfg0 store0 ops_promote \<and>
   map role (users (snd (register env0 store0 bob_dto))) = [SUPER_ADMIN, USER, USER]"
proof -
  have r: "map role (users store0) = [SUPER_ADMIN, USER]"
    by (simp add: store0_def root_def alice_def)
  have o: "map (asks_admin \<circ> snd) ops_promote = [False, False]"
    by (simp add: ops_promote_def bob_dto_def)
  have pre: "(\<forall>u\<in>set (users store0). role u \<noteq> ADMIN) \<and>
             (\<forall>(inp, c)\<in>set ops_promote. \<not> asks_admin c)"
    by (simp add: store0_def root_def alice_def ops_promote_def bob_dto_def)
  have m: "alice\<lparr>role := ADMIN\<rparr> \<in> set (users (run cfg0 store0 ops_promote))"
    by (simp add: run_ops_promote)
  have p: "uid (alice\<lparr>role := ADMIN\<rparr>) \<in> promoted cfg0 store0 ops_promote"
    using admin_only_by_promotion [THEN conjunct1, rule_format, OF pre m] by simp
  have g: "map role (users (snd (register env0 store0 bob_dto))) = [SUPER_ADMIN, USER, USER]"
    by (simp add: register_def findOne_by_email_def Let_def store0_def root_def alice_def
          bob_dto_def)
  from r o m p g show ?thesis by blast
qed

text \<open>
  C1 as stated fails: from a store with no \<open>ADMIN\<close> user, one registration whose DTO
  carries the role \<open>ADMIN\<close> creates a user with that role, and no promotion was made.
\<close>

theorem register_admin_counterexample:
  "map role (users store0) = [SUPER_ADMIN, USER] \<and>
   users (run cfg0 store0 ops_register_admin) = [root, alice, mallory] \<and>
   role mallory = ADMIN \<and>
   promoted cfg0 store0 ops_register_admin = {}"
  by (simp add: ops_register_admin_def register_def findOne_by_email_def bcrypt_hash_def Let_def
        promotes_def store0_def root_def alice_def mallory_dto_def mallory_def env0_def)

end
